theory Spec2Isabelle
  imports Complex_Main "HOL-Library.Signed_Division" "HOL-Library.Char_ord"
    "HOL-Library.List_Lexorder" "HOL-Library.Multiset"
begin

section \<open>Numbers and text of the JavaScript runtime\<close>

text \<open>
  JavaScript numbers are modelled by exact rationals (\<open>rat\<close>), and by \<open>int\<close> or
  \<open>nat\<close> where the source only ever holds integers (lottery numbers, vote counts, the
  integer columns of the schema).  Rounding errors of IEEE doubles are outside the model.
  Strings are byte strings (UTF-8); the accented letters of the source's messages are
  written as their two bytes.
\<close>

text \<open>\<open>Math.round\<close>: the nearest integer, a half rounds towards plus infinity.\<close>

definition Math_round :: "rat \<Rightarrow> int" where
  "Math_round x = \<lfloor>x + 1 / 2\<rfloor>"

text \<open>The remainder operator \<open>%\<close> on numbers: the result has the sign of the dividend.\<close>

definition js_rem :: "rat \<Rightarrow> rat \<Rightarrow> rat" where
  "js_rem x y = (let q = x / y in x - y * of_int (if 0 \<le> q then \<lfloor>q\<rfloor> else \<lceil>q\<rceil>))"

fun show_nat :: "nat \<Rightarrow> string" where
  "show_nat n =
     (if n < 10 then [char_of (48 + n)]
      else show_nat (n div 10) @ [char_of (48 + n mod 10)])"

declare show_nat.simps [simp del]

definition show_int :: "int \<Rightarrow> string" where
  "show_int i = (if i < 0 then ''-'' @ show_nat (nat (- i)) else show_nat (nat i))"

text \<open>\<open>x.toFixed(2)\<close>: the closest multiple of 1/100, the larger one on a tie.\<close>

definition toFixed2 :: "rat \<Rightarrow> string" where
  "toFixed2 x =
     (let n = nat \<lfloor>\<bar>x\<bar> * 100 + 1 / 2\<rfloor>
      in (if x < 0 then ''-'' else '''') @ show_nat (n div 100) @ ''.'' @
         [char_of (48 + n mod 100 div 10), char_of (48 + n mod 10)])"

section \<open>Configuration (config/constants.js)\<close>

record bet_level =
  lv_numbers :: nat
  lv_cost :: rat

definition BET_LEVELS :: "bet_level list" where
  "BET_LEVELS =
     [\<lparr>lv_numbers = 9, lv_cost = 504\<rparr>, \<lparr>lv_numbers = 8, lv_cost = 168\<rparr>,
      \<lparr>lv_numbers = 7, lv_cost = 42\<rparr>, \<lparr>lv_numbers = 6, lv_cost = 6\<rparr>]"


definition WEIGHT_historical :: int where "WEIGHT_historical = 40"
definition WEIGHT_popularity :: int where "WEIGHT_popularity = 40"
definition WEIGHT_antiPattern :: int where "WEIGHT_antiPattern = 20"

definition PENALTY_birthday :: int where "PENALTY_birthday = 10"
definition PENALTY_multipleOf5 :: int where "PENALTY_multipleOf5 = 5"
definition PENALTY_multipleOf10 :: int where "PENALTY_multipleOf10 = 5"

datatype payment_status = PENDING | CLAIMED | CONFIRMED

datatype bolao_status = OPEN | CLOSED

section \<open>Anti-pattern penalty (services/antiPattern.js)\<close>

definition calculateAntiPatternPenalty :: "int \<Rightarrow> int" where
  "calculateAntiPatternPenalty number =
     (let penalty = 0;
          penalty = (if number \<ge> 1 \<and> number \<le> 31 then penalty + PENALTY_birthday else penalty);
          penalty = (if number smod 5 = 0 then penalty + PENALTY_multipleOf5 else penalty);
          penalty = (if number smod 10 = 0 then penalty + PENALTY_multipleOf10 else penalty)
      in min penalty WEIGHT_antiPattern)"

section \<open>Bet level (services/betLevel.js)\<close>

text \<open>
  The object \<open>calculateBetLevel\<close> returns has one of two shapes: the affordable level
  with its figures and the three texts of \<open>breakdown\<close>, or \<open>betLevel: 0\<close> with an error
  text, the funds and the message of \<open>breakdown\<close>.
\<close>

datatype bet_info =
  Level (lvBetLevel: nat) (lvBetCost: rat) (lvSurplusFunds: rat) (lvSurplusBets: int)
    (lvRemainingFunds: rat) (lvTotalFunds: rat) (lvMainBet: string) (lvSurplus: string)
    (lvRemaining: string)
| NoLevel (nlError: string) (nlTotalFunds: rat) (nlMessage: string)

fun betLevel :: "bet_info \<Rightarrow> nat" where
  "betLevel (Level n _ _ _ _ _ _ _ _) = n"
| "betLevel (NoLevel _ _ _) = 0"

definition numeros :: string where
  "numeros = ''n'' @ [CHR 0xC3, CHR 0xBA] @ ''meros''"

definition nao_utilizado :: string where
  "nao_utilizado = '' n'' @ [CHR 0xC3, CHR 0xA3] @ ''o utilizado''"

definition minima :: string where
  "minima = ''m'' @ [CHR 0xC3, CHR 0xAD] @ ''nima''"

definition insufficient_error :: string where
  "insufficient_error = ''Fundos insuficientes para aposta '' @ minima @ '' (R$ 6,00)''"

definition insufficient_message :: "rat \<Rightarrow> string" where
  "insufficient_message totalFunds =
     ''Arrecadado: R$ '' @ toFixed2 totalFunds @ ''. Necess'' @ [CHR 0xC3, CHR 0xA1] @
     ''rio: R$ 6,00 m'' @ [CHR 0xC3, CHR 0xAD] @ ''nimo''"

fun scan_levels :: "rat \<Rightarrow> bet_level list \<Rightarrow> bet_info" where
  "scan_levels totalFunds [] =
     NoLevel insufficient_error totalFunds (insufficient_message totalFunds)"
| "scan_levels totalFunds (level # rest) =
     (if totalFunds \<ge> lv_cost level then
        (let surplus = totalFunds - lv_cost level;
             surplusBets = \<lfloor>surplus / 6\<rfloor>;
             remaining = js_rem surplus 6
         in Level (lv_numbers level) (lv_cost level) surplus surplusBets remaining totalFunds
              (''1 aposta de '' @ show_nat (lv_numbers level) @ '' '' @ numeros @ '' (R$ '' @
                 toFixed2 (lv_cost level) @ '')'')
              (if surplusBets > 0 then
                 show_int surplusBets @ '' '' @
                 (if surplusBets = 1 then ''aposta'' else ''apostas'') @ '' de 6 '' @ numeros @
                 '' (R$ '' @ toFixed2 (of_int surplusBets * 6) @ '')''
               else ''Nenhuma aposta adicional'')
              (''R$ '' @ toFixed2 remaining @ nao_utilizado @
                 (if remaining > 0 then '' (insuficiente para aposta adicional)'' else '''')))
      else scan_levels totalFunds rest)"

definition calculateBetLevel :: "rat \<Rightarrow> bet_info" where
  "calculateBetLevel totalFunds = scan_levels totalFunds BET_LEVELS"

section \<open>Validation (utils/validation.js)\<close>

text \<open>
  The values a request body can put where numbers are expected.  \<open>Object\<close> is a
  reference to an object (or nested array), equal only to itself, which is how a
  \<open>Set\<close> compares its members; equality of this datatype is that comparison.
\<close>

datatype jsval =
  Undefined | Null | Boolean bool | Number rat | NaN | PosInfinity | NegInfinity
| String string | Object nat







section \<open>Weighted random selection (utils/weightedRandom.js)\<close>

record 'a weighted =
  item :: 'a
  weight :: rat

text \<open>
  The inner loop: subtract the adjusted weights from \<open>random\<close> until it is not
  positive; the index found, or \<open>-1\<close>.
\<close>

fun walk :: "rat \<Rightarrow> rat \<Rightarrow> 'a weighted list \<Rightarrow> int \<Rightarrow> int" where
  "walk random offset [] j = - 1"
| "walk random offset (r # rest) j =
     (let random = random - (weight r + offset)
      in if random \<le> 0 then j else walk random offset rest (j + 1))"

text \<open>\<open>Math.min(...remaining.map(r => r.weight))\<close> of a non-empty list.\<close>

definition minWeight :: "'a weighted \<Rightarrow> 'a weighted list \<Rightarrow> rat" where
  "minWeight r rest = fold min (map weight rest) (weight r)"

definition draw_offset :: "rat \<Rightarrow> rat" where
  "draw_offset m = (if m < 0 then \<bar>m\<bar> + 1 else 0)"

text \<open>
  One iteration of the outer loop, for the value \<open>u\<close> that \<open>Math.random()\<close> returns:
  the item selected and the remaining items.  With nothing remaining the source reads
  \<open>remaining[-1].item\<close>, a TypeError: \<open>None\<close>.
\<close>

fun draw :: "rat \<Rightarrow> 'a weighted list \<Rightarrow> ('a \<times> 'a weighted list) option" where
  "draw u [] = None"
| "draw u (r # rest) =
     (let remaining = r # rest;
          offset = draw_offset (minWeight r rest);
          totalWeight = foldl (\<lambda>sum r. sum + (weight r + offset)) 0 remaining;
          random = u * totalWeight;
          selectedIndex = walk random offset remaining 0;
          selectedIndex = (if selectedIndex = - 1 then int (length remaining) - 1
                           else selectedIndex)
      in Some (item (remaining ! nat selectedIndex),
               take (nat selectedIndex) remaining @ drop (Suc (nat selectedIndex)) remaining))"

text \<open>
  The outer loop with \<open>k\<close> iterations left; \<open>rnd i\<close> is the value of the \<open>i\<close>-th call
  of \<open>Math.random()\<close>.
\<close>

fun draws :: "(nat \<Rightarrow> rat) \<Rightarrow> nat \<Rightarrow> nat \<Rightarrow> 'a weighted list \<Rightarrow> 'a list \<Rightarrow> 'a list option" where
  "draws rnd i 0 remaining selected = Some selected"
| "draws rnd i (Suc k) remaining selected =
     (case draw (rnd i) remaining of
        None \<Rightarrow> None
      | Some (x, remaining') \<Rightarrow> draws rnd (Suc i) k remaining' (selected @ [x]))"

text \<open>The parameter \<open>count\<close> (here \<open>cnt\<close>) is a number of items: a natural number.\<close>

definition weightedRandomSelection ::
  "(nat \<Rightarrow> rat) \<Rightarrow> 'a weighted list \<Rightarrow> nat \<Rightarrow> 'a list option" where
  "weightedRandomSelection rnd items cnt =
     (if length items \<le> cnt then Some (map item items)
      else draws rnd 0 cnt items [])"

section \<open>The runtime and the storage\<close>

text \<open>
  What the code takes from outside is an environment: for every request sent to the
  storage, whether it comes back with an error (by the place in the code that sends it
  and the request's position in the run);
  the values \<open>Math.random()\<close> returns; the texts \<open>new Date().toISOString()\<close> returns;
  the SHA-256 digest in hexadecimal; and the print of a number that is not an integer.
  The world is the tables, and how many requests, random values and clock readings the
  run has used.  Identifiers generated by the storage and the timestamps it fills in are
  not among the columns: the code never reads them.
\<close>

type_synonym uuid = string

text \<open>The places where the code sends a request to the storage.\<close>

datatype site =
  SelectDraws | SelectPopularity | UpsertScores | SelectScores
| SelectOpenBolao | SelectBolaoQuota | SelectConfirmed | SelectParticipants
| InsertSelections | SelectVotes | SelectScoreMap | SelectAllSelections | SelectTopScores
| UpdateBolao | InsertFinalBets

record environment =
  fails :: "site \<Rightarrow> nat \<Rightarrow> bool"
  random_value :: "nat \<Rightarrow> rat"
  clock :: "nat \<Rightarrow> string"
  sha256_hex :: "string \<Rightarrow> string"
  fraction_to_string :: "rat \<Rightarrow> string"

record user_row =
  user_id :: uuid
  user_name :: string

record participation_row =
  part_id :: uuid
  part_bolao_id :: uuid
  part_user_id :: uuid
  payment_status :: payment_status
  quota_quantity :: "int option"

record selection_row =
  sel_participation_id :: uuid
  sel_number :: int

record draw_row =
  number_1 :: int
  number_2 :: int
  number_3 :: int
  number_4 :: int
  number_5 :: int
  number_6 :: int

record score_row =
  sc_bolao_id :: uuid
  sc_number :: int
  historical_frequency :: int
  current_popularity :: int
  anti_pattern_penalty :: int
  final_score :: int
  last_updated :: string

record final_bet_row =
  fb_bolao_id :: uuid
  bet_type :: string
  fb_numbers :: "int list"

text \<open>The closure record, as \<open>closeBolao\<close> assembles it.\<close>

record participant_data =
  pd_userId :: uuid
  pd_name :: string
  pd_selectedNumbers :: "int list"

record closure_financials =
  cf_betLevel :: nat
  cf_betCost :: rat
  cf_surplusBets :: int
  cf_remainingFunds :: rat

record final_bet =
  bt_type :: string
  bt_numbers :: "int list"
  bt_cost :: rat

record closure_data =
  cd_bolaoId :: uuid
  cd_bolaoName :: string
  cd_closedAt :: string
  cd_closedBy :: uuid
  cd_totalFunds :: rat
  cd_quotaValue :: rat
  cd_participantCount :: nat
  cd_participants :: "participant_data list"
  cd_numberToUsers :: "(int \<times> string list) list"
  cd_financials :: closure_financials
  cd_finalBets :: "final_bet list"

record bolao_row =
  bolao_id :: uuid
  bolao_name :: string
  quota_value :: rat
  status :: bolao_status
  closure_hash :: "string option"
  closure_data :: "closure_data option"
  closed_at :: "string option"

record database =
  bolao :: "bolao_row list"
  users :: "user_row list"
  participations :: "participation_row list"
  number_selections :: "selection_row list"
  historical_draws :: "draw_row list"
  number_scores :: "score_row list"
  final_bets :: "final_bet_row list"

record world =
  db :: database
  requests :: nat
  randoms :: nat
  clock_reads :: nat

text \<open>What a run can throw.  A storage error is tagged with the place whose request failed.\<close>

datatype error =
  StorageError site
| NotFoundOrClosed
| InsufficientFunds string
| TypeError

type_synonym 'a outcome = "(error + 'a) \<times> world"

text \<open>Sending a request: whether it fails, and the world with one more request used.\<close>

definition request :: "environment \<Rightarrow> site \<Rightarrow> world \<Rightarrow> bool \<times> world" where
  "request env s w = (fails env s (requests w), w\<lparr>requests := Suc (requests w)\<rparr>)"

text \<open>\<open>await\<close> followed by the rest of the function: an error thrown ends the run.\<close>

definition andThen :: "'a outcome \<Rightarrow> ('a \<Rightarrow> world \<Rightarrow> 'b outcome) \<Rightarrow> 'b outcome" where
  "andThen r f = (case r of (Inl e, w) \<Rightarrow> (Inl e, w) | (Inr a, w) \<Rightarrow> f a w)"

text \<open>\<open>.single()\<close>: exactly one row, otherwise an error.\<close>

fun single :: "'a list \<Rightarrow> 'a option" where
  "single [r] = Some r"
| "single _ = None"

text \<open>
  The inner join of a selection with its participation, filtered by pool and confirmed
  payment: the selections of the pool's confirmed participations.
\<close>

definition participation_of :: "database \<Rightarrow> selection_row \<Rightarrow> participation_row option" where
  "participation_of d s = find (\<lambda>p. part_id p = sel_participation_id s) (participations d)"

definition confirmed_selections :: "database \<Rightarrow> uuid \<Rightarrow> selection_row list" where
  "confirmed_selections d bolaoId =
     filter (\<lambda>s. case participation_of d s of
                    None \<Rightarrow> False
                  | Some p \<Rightarrow> part_bolao_id p = bolaoId \<and> payment_status p = CONFIRMED)
       (number_selections d)"

section \<open>Scores (services/scoring.js)\<close>

text \<open>\<open>array[num]++\<close> under the guard \<open>num >= 1 && num <= 60\<close>.\<close>

definition tally :: "int list \<Rightarrow> int \<Rightarrow> int list" where
  "tally counts num =
     (if num \<ge> 1 \<and> num \<le> 60 then counts[nat num := counts ! nat num + 1] else counts)"

definition draw_numbers :: "draw_row \<Rightarrow> int list" where
  "draw_numbers d = [number_1 d, number_2 d, number_3 d, number_4 d, number_5 d, number_6 d]"

text \<open>
  The scores object: a map from the numbers to their scores.  A score that would be
  \<open>NaN\<close> is an absent entry.
\<close>

definition historical_scores :: "int list \<Rightarrow> (int \<rightharpoonup> int)" where
  "historical_scores frequency =
     (case drop 1 frequency of
        [] \<Rightarrow> Map.empty
      | f # fs \<Rightarrow>
          (let maxFreq = fold max fs f;
               minFreq = fold min fs f;
               range = maxFreq - minFreq
           in foldl (\<lambda>scores num.
                 if range = 0 then scores(num \<mapsto> WEIGHT_historical div 2)
                 else
                   (let normalized = (of_int (frequency ! nat num - minFreq) :: rat) / of_int range
                    in scores(num \<mapsto> Math_round (normalized * of_int WEIGHT_historical))))
               Map.empty [1..60]))"

definition calculateHistoricalFrequency ::
  "environment \<Rightarrow> world \<Rightarrow> (int \<rightharpoonup> int) outcome" where
  "calculateHistoricalFrequency env w =
     (case request env SelectDraws w of
        (True, w) \<Rightarrow> (Inl (StorageError SelectDraws), w)
      | (False, w) \<Rightarrow>
          (let draws = historical_draws (db w);
               frequency = foldl (\<lambda>frequency d. foldl tally frequency (draw_numbers d))
                             (replicate 61 0) draws
           in (Inr (historical_scores frequency), w)))"

definition popularity_scores :: "int list \<Rightarrow> (int \<rightharpoonup> int)" where
  "popularity_scores popularity =
     (let maxPop = fold max (drop 1 popularity) 1
      in foldl (\<lambda>scores num.
            (let normalized = 1 - (of_int (popularity ! nat num) :: rat) / of_int maxPop
             in scores(num \<mapsto> Math_round (normalized * of_int WEIGHT_popularity))))
          Map.empty [1..60])"

definition calculatePopularity ::
  "environment \<Rightarrow> world \<Rightarrow> uuid \<Rightarrow> (int \<rightharpoonup> int) outcome" where
  "calculatePopularity env w bolaoId =
     (case request env SelectPopularity w of
        (True, w) \<Rightarrow> (Inl (StorageError SelectPopularity), w)
      | (False, w) \<Rightarrow>
          (let selections = confirmed_selections (db w) bolaoId;
               popularity = foldl (\<lambda>popularity sel. tally popularity (sel_number sel))
                              (replicate 61 0) selections
           in (Inr (popularity_scores popularity), w)))"

text \<open>
  One row of \<open>finalScores\<close>; \<open>t\<close> is the clock reading of the row.  With a score
  absent (\<open>NaN\<close>) there is no row the integer columns would take.
\<close>

definition final_score_row ::
  "uuid \<Rightarrow> (int \<rightharpoonup> int) \<Rightarrow> (int \<rightharpoonup> int) \<Rightarrow> string \<Rightarrow> int \<Rightarrow> score_row option" where
  "final_score_row bolaoId historicalScores popularityScores t num =
     (case (historicalScores num, popularityScores num) of
        (Some historical, Some popularity) \<Rightarrow>
          (let penalty = calculateAntiPatternPenalty num;
               finalScore = historical + popularity - penalty
           in Some \<lparr>sc_bolao_id = bolaoId, sc_number = num, historical_frequency = historical,
                    current_popularity = popularity, anti_pattern_penalty = penalty,
                    final_score = finalScore, last_updated = t\<rparr>)
      | _ \<Rightarrow> None)"

fun final_score_rows ::
  "environment \<Rightarrow> uuid \<Rightarrow> (int \<rightharpoonup> int) \<Rightarrow> (int \<rightharpoonup> int) \<Rightarrow> nat \<Rightarrow> int list \<Rightarrow>
     score_row option list" where
  "final_score_rows env bolaoId hs ps t [] = []"
| "final_score_rows env bolaoId hs ps t (num # nums) =
     final_score_row bolaoId hs ps (clock env t) num #
     final_score_rows env bolaoId hs ps (Suc t) nums"

text \<open>Upsert on the key \<open>(bolao_id, number)\<close>: replace the row of the key, or add it.\<close>

fun upsert_score :: "score_row \<Rightarrow> score_row list \<Rightarrow> score_row list" where
  "upsert_score r [] = [r]"
| "upsert_score r (x # xs) =
     (if sc_bolao_id x = sc_bolao_id r \<and> sc_number x = sc_number r then r # xs
      else x # upsert_score r xs)"

fun all_present :: "'a option list \<Rightarrow> 'a list option" where
  "all_present [] = Some []"
| "all_present (None # xs) = None"
| "all_present (Some x # xs) = (case all_present xs of None \<Rightarrow> None | Some ys \<Rightarrow> Some (x # ys))"

text \<open>
  The two components are started together and both requests are sent; the model sends
  the historical request first and reports its error first.
\<close>

definition calculateAllScores :: "environment \<Rightarrow> world \<Rightarrow> uuid \<Rightarrow> score_row list outcome" where
  "calculateAllScores env w bolaoId =
     (case calculateHistoricalFrequency env w of (h, w) \<Rightarrow>
      (case calculatePopularity env w bolaoId of (p, w) \<Rightarrow>
      andThen (h, w) (\<lambda>historicalScores w.
      andThen (p, w) (\<lambda>popularityScores w.
        (let rows = final_score_rows env bolaoId historicalScores popularityScores
                      (clock_reads w) [1..60];
             w = w\<lparr>clock_reads := clock_reads w + 60\<rparr>
         in case request env UpsertScores w of
              (True, w) \<Rightarrow> (Inl (StorageError UpsertScores), w)
            | (False, w) \<Rightarrow>
                (case all_present rows of
                   None \<Rightarrow> (Inl (StorageError UpsertScores), w)
                 | Some finalScores \<Rightarrow>
                     (Inr finalScores,
                      w\<lparr>db := (db w)\<lparr>number_scores :=
                              foldl (\<lambda>t r. upsert_score r t) (number_scores (db w))
                                finalScores\<rparr>\<rparr>)))))))"

text \<open>The stored rows of a pool, in ascending order of the number.\<close>

definition stored_scores :: "database \<Rightarrow> uuid \<Rightarrow> score_row list" where
  "stored_scores d bolaoId =
     sort_key sc_number (filter (\<lambda>r. sc_bolao_id r = bolaoId) (number_scores d))"

definition getScores :: "environment \<Rightarrow> world \<Rightarrow> uuid \<Rightarrow> bool \<Rightarrow> score_row list outcome" where
  "getScores env w bolaoId recalculate =
     (if recalculate then calculateAllScores env w bolaoId
      else
        (case request env SelectScores w of
           (True, w) \<Rightarrow> (Inl (StorageError SelectScores), w)
         | (False, w) \<Rightarrow>
             (let scores = stored_scores (db w) bolaoId
              in if length scores = 0 then calculateAllScores env w bolaoId
                 else (Inr scores, w))))"

section \<open>Closure hash (utils/hash.js)\<close>

text \<open>
  The values \<open>JSON.stringify\<close> is given.  An object is the list of its own properties
  in enumeration order (keys are unique in an object; the first entry of a key is the
  one read).
\<close>

datatype json =
  JNull | JBool bool | JNumber rat | JString string | JArray "json list"
| JObject "(string \<times> json) list"

definition hex_digit :: "nat \<Rightarrow> char" where
  "hex_digit n = (if n < 10 then char_of (48 + n) else char_of (87 + n))"

text \<open>\<open>QuoteJSONString\<close>: the quote, the backslash and the control characters escaped.\<close>

definition quote_char :: "char \<Rightarrow> string" where
  "quote_char c =
     (if c = CHR 0x22 then [CHR 0x5C, CHR 0x22]
      else if c = CHR 0x5C then [CHR 0x5C, CHR 0x5C]
      else if c = CHR 0x08 then [CHR 0x5C, CHR ''b'']
      else if c = CHR 0x0C then [CHR 0x5C, CHR ''f'']
      else if c = CHR 0x0A then [CHR 0x5C, CHR ''n'']
      else if c = CHR 0x0D then [CHR 0x5C, CHR ''r'']
      else if c = CHR 0x09 then [CHR 0x5C, CHR ''t'']
      else if (of_char c :: nat) < 32 then
        [CHR 0x5C, CHR ''u'', CHR ''0'', CHR ''0'', hex_digit (of_char c div 16),
         hex_digit (of_char c mod 16)]
      else [c])"

definition quote :: "string \<Rightarrow> string" where
  "quote str = [CHR 0x22] @ concat (map quote_char str) @ [CHR 0x22]"

text \<open>The print of a number: an integer in decimal, anything else by the runtime.\<close>

definition show_number :: "environment \<Rightarrow> rat \<Rightarrow> string" where
  "show_number env q = (if of_int \<lfloor>q\<rfloor> = q then show_int \<lfloor>q\<rfloor> else fraction_to_string env q)"

fun join :: "string list \<Rightarrow> string" where
  "join [] = []"
| "join [x] = x"
| "join (x # y # rest) = x @ '','' @ join (y # rest)"

text \<open>
  \<open>JSON.stringify(value, K)\<close> with an array \<open>K\<close> of property names as the replacer:
  of every object, at every depth, the properties named in \<open>K\<close> are written, in the order
  of \<open>K\<close>, and no other; an array is written element by element.  \<open>serialize_property\<close>
  reads the property \<open>P\<close> of an object and writes the member, if the object has it.
\<close>

fun serialize :: "environment \<Rightarrow> string list \<Rightarrow> json \<Rightarrow> string"
  and serialize_elements :: "environment \<Rightarrow> string list \<Rightarrow> json list \<Rightarrow> string list"
  and serialize_property ::
    "environment \<Rightarrow> string list \<Rightarrow> string \<Rightarrow> (string \<times> json) list \<Rightarrow> string option"
where
  "serialize env K JNull = ''null''"
| "serialize env K (JBool b) = (if b then ''true'' else ''false'')"
| "serialize env K (JNumber q) = show_number env q"
| "serialize env K (JString str) = quote str"
| "serialize env K (JArray elements) = ''['' @ join (serialize_elements env K elements) @ '']''"
| "serialize env K (JObject properties) =
     ''{'' @ join (List.map_filter (\<lambda>P. serialize_property env K P properties) K) @ ''}''"
| "serialize_elements env K [] = []"
| "serialize_elements env K (v # rest) = serialize env K v # serialize_elements env K rest"
| "serialize_property env K P [] = None"
| "serialize_property env K P ((k, v) # rest) =
     (if k = P then Some (quote P @ '':'' @ serialize env K v)
      else serialize_property env K P rest)"

definition JSON_stringify :: "environment \<Rightarrow> (string \<times> json) list \<Rightarrow> string list \<Rightarrow> string" where
  "JSON_stringify env obj replacer = serialize env (remdups replacer) (JObject obj)"

text \<open>\<open>Object.keys(closureData).sort()\<close>: the keys in ascending order.\<close>

definition generateClosureHash :: "environment \<Rightarrow> (string \<times> json) list \<Rightarrow> string" where
  "generateClosureHash env closureData =
     (let dataString = JSON_stringify env closureData (sort (map fst closureData));
          hash = sha256_hex env dataString
      in hash)"

definition verifyClosureHash :: "environment \<Rightarrow> (string \<times> json) list \<Rightarrow> string \<Rightarrow> bool" where
  "verifyClosureHash env closureData providedHash =
     (let calculatedHash = generateClosureHash env closureData
      in calculatedHash = providedHash)"

text \<open>The closure record as the object literal of \<open>closeBolao\<close> writes it.\<close>

definition numbers_json :: "int list \<Rightarrow> json" where
  "numbers_json nums = JArray (map (\<lambda>n. JNumber (of_int n)) nums)"

definition closure_json :: "closure_data \<Rightarrow> (string \<times> json) list" where
  "closure_json c =
     [(''bolaoId'', JString (cd_bolaoId c)),
      (''bolaoName'', JString (cd_bolaoName c)),
      (''closedAt'', JString (cd_closedAt c)),
      (''closedBy'', JString (cd_closedBy c)),
      (''totalFunds'', JNumber (cd_totalFunds c)),
      (''quotaValue'', JNumber (cd_quotaValue c)),
      (''participantCount'', JNumber (of_nat (cd_participantCount c))),
      (''participants'', JArray (map (\<lambda>p.
          JObject [(''userId'', JString (pd_userId p)), (''name'', JString (pd_name p)),
                   (''selectedNumbers'', numbers_json (pd_selectedNumbers p))])
        (cd_participants c))),
      (''numberToUsers'', JObject (map (\<lambda>(num, names).
          (show_int num, JArray (map JString names))) (cd_numberToUsers c))),
      (''financials'', JObject
         [(''betLevel'', JNumber (of_nat (cf_betLevel (cd_financials c)))),
          (''betCost'', JNumber (cf_betCost (cd_financials c))),
          (''surplusBets'', JNumber (of_int (cf_surplusBets (cd_financials c)))),
          (''remainingFunds'', JNumber (cf_remainingFunds (cd_financials c)))]),
      (''finalBets'', JArray (map (\<lambda>b.
          JObject [(''type'', JString (bt_type b)), (''numbers'', numbers_json (bt_numbers b)),
                   (''cost'', JNumber (bt_cost b))])
        (cd_finalBets c)))]"

text \<open>The keys of the closure record in ascending order.\<close>

definition closure_keys :: "string list" where
  "closure_keys =
     [''bolaoId'', ''bolaoName'', ''closedAt'', ''closedBy'', ''finalBets'', ''financials'',
      ''numberToUsers'', ''participantCount'', ''participants'', ''quotaValue'', ''totalFunds'']"

section \<open>Financial summary (services/betLevel.js)\<close>

record financials =
  fin_quotaValue :: rat
  fin_confirmedCount :: nat
  fin_totalFunds :: rat
  fin_betInfo :: bet_info
  fin_status :: bolao_status

definition getBolaoFinancials :: "environment \<Rightarrow> world \<Rightarrow> uuid \<Rightarrow> financials outcome" where
  "getBolaoFinancials env w bolaoId =
     (case request env SelectBolaoQuota w of (failed, w) \<Rightarrow>
      (case (if failed then None
             else single (filter (\<lambda>b. bolao_id b = bolaoId) (bolao (db w)))) of
        None \<Rightarrow> (Inl (StorageError SelectBolaoQuota), w)
      | Some bolaoRow \<Rightarrow>
          (case request env SelectConfirmed w of
             (True, w) \<Rightarrow> (Inl (StorageError SelectConfirmed), w)
           | (False, w) \<Rightarrow>
               (let confirmed =
                      filter (\<lambda>p. part_bolao_id p = bolaoId \<and> payment_status p = CONFIRMED)
                        (participations (db w));
                    confirmedCount = length confirmed;
                    totalQuotas =
                      foldl (\<lambda>sum p. sum + (case quota_quantity p of
                                                None \<Rightarrow> 1
                                              | Some q \<Rightarrow> if q = 0 then 1 else q))
                        0 confirmed;
                    quotaValue = quota_value bolaoRow;
                    totalFunds = of_int totalQuotas * quotaValue;
                    betInfo = calculateBetLevel totalFunds
                in (Inr \<lparr>fin_quotaValue = quotaValue, fin_confirmedCount = confirmedCount,
                         fin_totalFunds = totalFunds, fin_betInfo = betInfo,
                         fin_status = status bolaoRow\<rparr>, w)))))"

section \<open>Generated numbers (utils/weightedRandom.js)\<close>

text \<open>
  \<open>scores\<close> are the pairs of a number and its score.  The random values used are
  the next ones of the environment; the loop of the selection draws one per iteration.
\<close>

definition generateWeightedRandomNumbers ::
  "environment \<Rightarrow> world \<Rightarrow> (int \<times> int) list \<Rightarrow> nat \<Rightarrow> int list outcome" where
  "generateWeightedRandomNumbers env w scores cnt =
     (let items = map (\<lambda>(number, score). \<lparr>item = number, weight = of_int score\<rparr>) scores
      in case weightedRandomSelection (\<lambda>i. random_value env (randoms w + i)) items cnt of
           None \<Rightarrow> (Inl TypeError, w)
         | Some selected \<Rightarrow>
             (Inr (sort selected),
              w\<lparr>randoms := randoms w + (if length items \<le> cnt then 0 else cnt)\<rparr>))"

section \<open>Closure (services/closure.js)\<close>

subsection \<open>Consolidation of the main bet\<close>

record ranked_entry =
  rk_number :: int
  rk_votes :: nat
  rk_score :: int

text \<open>The comparator given to \<open>ranked.sort\<close>: votes descending, then score descending.\<close>

definition compare_ranked :: "ranked_entry \<Rightarrow> ranked_entry \<Rightarrow> int" where
  "compare_ranked a b =
     (if rk_votes b \<noteq> rk_votes a then int (rk_votes b) - int (rk_votes a)
      else rk_score b - rk_score a)"

text \<open>
  \<open>Array.prototype.sort\<close> with a comparator is a stable sort: elements the comparator
  does not separate keep their order.  Insertion from the right end is such a sort.
\<close>

fun insert_sorted :: "('a \<Rightarrow> 'a \<Rightarrow> int) \<Rightarrow> 'a \<Rightarrow> 'a list \<Rightarrow> 'a list" where
  "insert_sorted cmp x [] = [x]"
| "insert_sorted cmp x (y # ys) =
     (if cmp x y \<le> 0 then x # y # ys else y # insert_sorted cmp x ys)"

definition Array_sort :: "('a \<Rightarrow> 'a \<Rightarrow> int) \<Rightarrow> 'a list \<Rightarrow> 'a list" where
  "Array_sort cmp xs = foldr (insert_sorted cmp) xs []"

definition votes_of :: "(int \<rightharpoonup> nat) \<Rightarrow> int \<Rightarrow> nat" where
  "votes_of userVotes num = (case userVotes num of None \<Rightarrow> 0 | Some v \<Rightarrow> v)"

definition score_of :: "(int \<rightharpoonup> int) \<Rightarrow> int \<Rightarrow> int" where
  "score_of scoreMap num = (case scoreMap num of None \<Rightarrow> 0 | Some s \<Rightarrow> s)"

definition ranked_numbers :: "(int \<rightharpoonup> nat) \<Rightarrow> (int \<rightharpoonup> int) \<Rightarrow> ranked_entry list" where
  "ranked_numbers userVotes scoreMap =
     Array_sort compare_ranked
       (map (\<lambda>num. \<lparr>rk_number = num, rk_votes = votes_of userVotes num,
                    rk_score = score_of scoreMap num\<rparr>) [1..60])"

definition consolidate :: "(int \<rightharpoonup> nat) \<Rightarrow> (int \<rightharpoonup> int) \<Rightarrow> nat \<Rightarrow> int list" where
  "consolidate userVotes scoreMap targetCount =
     sort (map rk_number (take targetCount (ranked_numbers userVotes scoreMap)))"

definition count_votes :: "selection_row list \<Rightarrow> (int \<rightharpoonup> nat)" where
  "count_votes selections =
     foldl (\<lambda>userVotes sel. userVotes(sel_number sel \<mapsto> votes_of userVotes (sel_number sel) + 1))
       Map.empty selections"

definition score_map :: "score_row list \<Rightarrow> (int \<rightharpoonup> int)" where
  "score_map scores = foldl (\<lambda>scoreMap s. scoreMap(sc_number s \<mapsto> final_score s)) Map.empty scores"

definition consolidateFinalNumbers ::
  "environment \<Rightarrow> world \<Rightarrow> uuid \<Rightarrow> nat \<Rightarrow> int list outcome" where
  "consolidateFinalNumbers env w bolaoId targetCount =
     (case request env SelectVotes w of
        (True, w) \<Rightarrow> (Inl (StorageError SelectVotes), w)
      | (False, w) \<Rightarrow>
          (let userVotes = count_votes (confirmed_selections (db w) bolaoId)
           in case request env SelectScoreMap w of
                (True, w) \<Rightarrow> (Inl (StorageError SelectScoreMap), w)
              | (False, w) \<Rightarrow>
                  (let scoreMap = score_map (filter (\<lambda>r. sc_bolao_id r = bolaoId)
                                               (number_scores (db w)))
                   in (Inr (consolidate userVotes scoreMap targetCount), w))))"

subsection \<open>The steps of \<open>closeBolao\<close>\<close>

text \<open>Step 1: the pool, if it is open.  A failed request and a missing row throw alike.\<close>

definition select_open_bolao :: "environment \<Rightarrow> world \<Rightarrow> uuid \<Rightarrow> bolao_row outcome" where
  "select_open_bolao env w bolaoId =
     (case request env SelectOpenBolao w of (failed, w) \<Rightarrow>
       (case (if failed then None
              else single (filter (\<lambda>b. bolao_id b = bolaoId \<and> status b = OPEN)
                             (bolao (db w)))) of
          None \<Rightarrow> (Inl NotFoundOrClosed, w)
        | Some bolaoRow \<Rightarrow> (Inr bolaoRow, w)))"

text \<open>
  Step 3: the confirmed participations with the user and the selected numbers embedded.
  The user is absent (\<open>null\<close>) when no user row has the participation's user id.
\<close>

record participant =
  pt_id :: uuid
  pt_users :: "user_row option"
  pt_number_selections :: "int list"

definition select_participants :: "database \<Rightarrow> uuid \<Rightarrow> participant list" where
  "select_participants d bolaoId =
     map (\<lambda>p. \<lparr>pt_id = part_id p,
                pt_users = find (\<lambda>u. user_id u = part_user_id p) (users d),
                pt_number_selections =
                  map sel_number (filter (\<lambda>s. sel_participation_id s = part_id p)
                                    (number_selections d))\<rparr>)
       (filter (\<lambda>p. part_bolao_id p = bolaoId \<and> payment_status p = CONFIRMED)
          (participations d))"

definition score_pairs :: "score_row list \<Rightarrow> (int \<times> int) list" where
  "score_pairs scores = map (\<lambda>s. (sc_number s, final_score s)) scores"

text \<open>
  The loop that generates numbers for the participants without a selection.  Reading
  the name of an absent user is a TypeError; a failed insert is logged, not thrown, and
  leaves the participant without numbers.
\<close>

fun autogenerate ::
  "environment \<Rightarrow> score_row list \<Rightarrow> participant list \<Rightarrow> world \<Rightarrow> participant list outcome" where
  "autogenerate env scores [] w = (Inr [], w)"
| "autogenerate env scores (participant # rest) w =
     (if length (pt_number_selections participant) = 0 then
        (case pt_users participant of
           None \<Rightarrow> (Inl TypeError, w)
         | Some u \<Rightarrow>
             andThen (generateWeightedRandomNumbers env w (score_pairs scores) 6)
               (\<lambda>generated w.
                  (let selections = map (\<lambda>num. \<lparr>sel_participation_id = pt_id participant,
                                                sel_number = num\<rparr>) generated
                   in case request env InsertSelections w of
                        (True, w) \<Rightarrow>
                          andThen (autogenerate env scores rest w)
                            (\<lambda>ps w. (Inr (participant # ps), w))
                      | (False, w) \<Rightarrow>
                          andThen (autogenerate env scores rest
                                     (w\<lparr>db := (db w)\<lparr>number_selections :=
                                            number_selections (db w) @ selections\<rparr>\<rparr>))
                            (\<lambda>ps w.
                               (Inr (participant\<lparr>pt_number_selections :=
                                                   map sel_number selections\<rparr> # ps), w)))))
      else andThen (autogenerate env scores rest w) (\<lambda>ps w. (Inr (participant # ps), w)))"

definition participant_data_of :: "participant \<Rightarrow> participant_data option" where
  "participant_data_of p =
     (case pt_users p of
        None \<Rightarrow> None
      | Some u \<Rightarrow> Some \<lparr>pd_userId = user_id u, pd_name = user_name u,
                        pd_selectedNumbers = sort (pt_number_selections p)\<rparr>)"

text \<open>
  The map from a number to the names of the users who selected it.  Its keys are
  enumerated in ascending order, as the keys of an object that are array indices are.
\<close>

fun push_name :: "int \<Rightarrow> string \<Rightarrow> (int \<times> string list) list \<Rightarrow> (int \<times> string list) list" where
  "push_name num userName [] = [(num, [userName])]"
| "push_name num userName ((k, names) # rest) =
     (if k = num then (k, names @ [userName]) # rest
      else if num < k then (num, [userName]) # (k, names) # rest
      else (k, names) # push_name num userName rest)"

definition selection_user_name :: "database \<Rightarrow> selection_row \<Rightarrow> string option" where
  "selection_user_name d s =
     (case participation_of d s of
        None \<Rightarrow> None
      | Some p \<Rightarrow> map_option user_name (find (\<lambda>u. user_id u = part_user_id p) (users d)))"

fun number_to_users ::
  "database \<Rightarrow> selection_row list \<Rightarrow> (int \<times> string list) list \<Rightarrow>
     (int \<times> string list) list option" where
  "number_to_users d [] numberToUsers = Some numberToUsers"
| "number_to_users d (sel # rest) numberToUsers =
     (case selection_user_name d sel of
        None \<Rightarrow> None
      | Some userName \<Rightarrow> number_to_users d rest (push_name (sel_number sel) userName numberToUsers))"

text \<open>
  Step 5, the loop over the surplus bets, with \<open>k\<close> iterations left.  The six best
  scores among the available numbers are asked of the storage in descending order of
  the score; rows of equal score come in table order.  A failed request skips the bet.
\<close>

definition top_scores :: "database \<Rightarrow> uuid \<Rightarrow> int list \<Rightarrow> score_row list" where
  "top_scores d bolaoId availableNumbers =
     take 6 (sort_key (\<lambda>r. - final_score r)
               (filter (\<lambda>r. sc_bolao_id r = bolaoId \<and> sc_number r \<in> set availableNumbers)
                  (number_scores d)))"

fun surplus_loop ::
  "environment \<Rightarrow> uuid \<Rightarrow> nat \<Rightarrow> int list \<Rightarrow> int list list \<Rightarrow> world \<Rightarrow> int list list outcome" where
  "surplus_loop env bolaoId 0 usedNumbers surplusBets w = (Inr surplusBets, w)"
| "surplus_loop env bolaoId (Suc k) usedNumbers surplusBets w =
     (let availableNumbers = filter (\<lambda>num. num \<notin> set usedNumbers) [1..60];
          reset = length availableNumbers < 6;
          usedNumbers = (if reset then [] else usedNumbers);
          availableNumbers = (if reset then [1..60] else availableNumbers)
      in case request env SelectTopScores w of
           (True, w) \<Rightarrow> surplus_loop env bolaoId k usedNumbers surplusBets w
         | (False, w) \<Rightarrow>
             (let scores = top_scores (db w) bolaoId availableNumbers
              in if length scores < 6 then
                   andThen (getScores env w bolaoId False) (\<lambda>scoresData w.
                   andThen (generateWeightedRandomNumbers env w (score_pairs scoresData) 6)
                     (\<lambda>generated w.
                        surplus_loop env bolaoId k usedNumbers (surplusBets @ [generated]) w))
                 else
                   (let surplusNumbers = sort (map sc_number scores)
                    in surplus_loop env bolaoId k (usedNumbers @ surplusNumbers)
                         (surplusBets @ [surplusNumbers]) w)))"

record close_result =
  cr_success :: bool
  cr_hash :: string
  cr_closureData :: closure_data
  cr_finalBets :: "final_bet list"

text \<open>Steps 8 and 9: the update of the pool's row, then the insert of the final bets.\<close>

definition update_bolao ::
  "environment \<Rightarrow> uuid \<Rightarrow> string \<Rightarrow> closure_data \<Rightarrow> world \<Rightarrow> unit outcome" where
  "update_bolao env bolaoId hash closureData w =
     (case request env UpdateBolao w of
        (True, w) \<Rightarrow> (Inl (StorageError UpdateBolao), w)
      | (False, w) \<Rightarrow>
          (Inr (),
           w\<lparr>db := (db w)\<lparr>bolao :=
                map (\<lambda>b. if bolao_id b = bolaoId
                          then b\<lparr>status := CLOSED, closure_hash := Some hash,
                                 closure_data := Some closureData,
                                 closed_at := Some (cd_closedAt closureData)\<rparr>
                          else b)
                  (bolao (db w))\<rparr>\<rparr>))"

definition insert_final_bets ::
  "environment \<Rightarrow> uuid \<Rightarrow> final_bet list \<Rightarrow> world \<Rightarrow> unit outcome" where
  "insert_final_bets env bolaoId finalBets w =
     (let betsToInsert = map (\<lambda>bet. \<lparr>fb_bolao_id = bolaoId, bet_type = bt_type bet,
                                      fb_numbers = bt_numbers bet\<rparr>) finalBets
      in case request env InsertFinalBets w of
           (True, w) \<Rightarrow> (Inl (StorageError InsertFinalBets), w)
         | (False, w) \<Rightarrow>
             (Inr (), w\<lparr>db := (db w)\<lparr>final_bets := final_bets (db w) @ betsToInsert\<rparr>\<rparr>))"

text \<open>
  Step 4, second half: the names of the users by number.  The request ignores its
  error: a failed request leaves the map empty.
\<close>

definition collect_names ::
  "environment \<Rightarrow> world \<Rightarrow> uuid \<Rightarrow> (int \<times> string list) list outcome" where
  "collect_names env w bolaoId =
     (case request env SelectAllSelections w of
        (True, w) \<Rightarrow> (Inr [], w)
      | (False, w) \<Rightarrow>
          (case number_to_users (db w) (confirmed_selections (db w) bolaoId) [] of
             None \<Rightarrow> (Inl TypeError, w)
           | Some numberToUsers \<Rightarrow> (Inr numberToUsers, w)))"

text \<open>Step 6: the closure record.\<close>

definition assemble_closure ::
  "uuid \<Rightarrow> bolao_row \<Rightarrow> string \<Rightarrow> uuid \<Rightarrow> financials \<Rightarrow> nat \<Rightarrow> rat \<Rightarrow> int \<Rightarrow> rat \<Rightarrow>
     participant_data list \<Rightarrow> (int \<times> string list) list \<Rightarrow> int list \<Rightarrow> int list list \<Rightarrow>
     closure_data" where
  "assemble_closure bolaoId bolaoRow closedAt adminUserId fin level betCost surplusBetCount
     remainingFunds participantsData numberToUsers mainBetNumbers surplusBets =
     \<lparr>cd_bolaoId = bolaoId,
      cd_bolaoName = bolao_name bolaoRow,
      cd_closedAt = closedAt,
      cd_closedBy = adminUserId,
      cd_totalFunds = fin_totalFunds fin,
      cd_quotaValue = fin_quotaValue fin,
      cd_participantCount = length participantsData,
      cd_participants = participantsData,
      cd_numberToUsers = numberToUsers,
      cd_financials = \<lparr>cf_betLevel = level, cf_betCost = betCost,
                        cf_surplusBets = surplusBetCount,
                        cf_remainingFunds = remainingFunds\<rparr>,
      cd_finalBets =
        \<lparr>bt_type = show_nat level @ '' '' @ numeros, bt_numbers = mainBetNumbers,
         bt_cost = betCost\<rparr> #
        map (\<lambda>nums. \<lparr>bt_type = ''6 '' @ numeros @ '' (surplus)'', bt_numbers = nums,
                     bt_cost = 6\<rparr>) surplusBets\<rparr>"

text \<open>
  Steps 3 to 7, for a pool whose funds reach the bet level \<open>level\<close>.  The confirmed
  participants are read first (\<open>selected\<close>); the loop then replaces the list by the one
  with the generated numbers.
\<close>

definition close_steps ::
  "environment \<Rightarrow> world \<Rightarrow> uuid \<Rightarrow> uuid \<Rightarrow> bolao_row \<Rightarrow> financials \<Rightarrow> nat \<Rightarrow> rat \<Rightarrow> int \<Rightarrow>
     rat \<Rightarrow> (closure_data \<times> string) outcome" where
  "close_steps env w bolaoId adminUserId bolaoRow fin level betCost surplusBetCount
     remainingFunds =
     (case request env SelectParticipants w of
        (True, w) \<Rightarrow> (Inl (StorageError SelectParticipants), w)
      | (False, w) \<Rightarrow>
          (let selected = select_participants (db w) bolaoId
           in andThen (getScores env w bolaoId False) (\<lambda>scores w.
              andThen (autogenerate env scores selected w)
                (\<lambda>participants w.
                   (case all_present (map participant_data_of participants) of
                      None \<Rightarrow> (Inl TypeError, w)
                    | Some participantsData \<Rightarrow>
                        andThen (consolidateFinalNumbers env w bolaoId level)
                          (\<lambda>mainBetNumbers w.
                        andThen (collect_names env w bolaoId) (\<lambda>numberToUsers w.
                        andThen (surplus_loop env bolaoId (nat surplusBetCount)
                                   mainBetNumbers [] w)
                          (\<lambda>surplusBets w.
                             (let closureData =
                                    assemble_closure bolaoId bolaoRow
                                      (clock env (clock_reads w)) adminUserId fin level betCost
                                      surplusBetCount remainingFunds participantsData
                                      numberToUsers mainBetNumbers surplusBets;
                                  hash = generateClosureHash env (closure_json closureData)
                              in (Inr (closureData, hash),
                                  w\<lparr>clock_reads := Suc (clock_reads w)\<rparr>))))))))))"

text \<open>Steps 1 and 2, the open pool and its funds, and then the steps above.\<close>

definition prepare_closure ::
  "environment \<Rightarrow> world \<Rightarrow> uuid \<Rightarrow> uuid \<Rightarrow> (closure_data \<times> string) outcome" where
  "prepare_closure env w bolaoId adminUserId =
     andThen (select_open_bolao env w bolaoId) (\<lambda>bolaoRow w.
     andThen (getBolaoFinancials env w bolaoId) (\<lambda>fin w.
       (case fin_betInfo fin of
          NoLevel err _ _ \<Rightarrow> (Inl (InsufficientFunds err), w)
        | Level level betCost _ surplusBetCount remainingFunds _ _ _ _ \<Rightarrow>
            if level = 0 then (Inl (InsufficientFunds ''Insufficient funds''), w)
            else close_steps env w bolaoId adminUserId bolaoRow fin level betCost
                   surplusBetCount remainingFunds)))"

definition closeBolao :: "environment \<Rightarrow> world \<Rightarrow> uuid \<Rightarrow> uuid \<Rightarrow> close_result outcome" where
  "closeBolao env w bolaoId adminUserId =
     andThen (prepare_closure env w bolaoId adminUserId) (\<lambda>(closureData, hash) w.
     andThen (update_bolao env bolaoId hash closureData w) (\<lambda>_ w.
     andThen (insert_final_bets env bolaoId (cd_finalBets closureData) w) (\<lambda>_ w.
       (Inr \<lparr>cr_success = True, cr_hash = hash, cr_closureData = closureData,
             cr_finalBets = cd_finalBets closureData\<rparr>, w))))"

section \<open>The specification's wording of the bet-level resolver\<close>

text \<open>
  The tier list and the rule as the specification words them: the first tier, in
  descending cost, whose cost the funds cover; the surplus, the number of six-unit
  surplus bets and the leftover.
\<close>

definition spec_tiers :: "(nat \<times> rat) list" where
  "spec_tiers = [(9, 504), (8, 168), (7, 42), (6, 6)]"

definition spec_resolve :: "rat \<Rightarrow> (nat \<times> rat \<times> int \<times> rat) option" where
  "spec_resolve totalFunds =
     (case find (\<lambda>(n, c). c \<le> totalFunds) spec_tiers of
        None \<Rightarrow> None
      | Some (n, c) \<Rightarrow>
          (let surplus = totalFunds - c
           in Some (n, surplus, \<lfloor>surplus / 6\<rfloor>, surplus - 6 * of_int \<lfloor>surplus / 6\<rfloor>)))"

section \<open>The specification's wording of the consolidation\<close>

text \<open>
  The ranking the specification asks for: more votes first, then the higher score; the
  missing votes and scores count as 0.  Numbers with equal votes and equal score are
  put in ascending order, which makes the ranking a strict total order.
\<close>

definition ranks_before :: "(int \<rightharpoonup> nat) \<Rightarrow> (int \<rightharpoonup> int) \<Rightarrow> int \<Rightarrow> int \<Rightarrow> bool" where
  "ranks_before userVotes scoreMap a b \<longleftrightarrow>
     votes_of userVotes a > votes_of userVotes b \<or>
     (votes_of userVotes a = votes_of userVotes b \<and>
      (score_of scoreMap a > score_of scoreMap b \<or>
       (score_of scoreMap a = score_of scoreMap b \<and> a < b)))"

definition entry_before :: "ranked_entry \<Rightarrow> ranked_entry \<Rightarrow> bool" where
  "entry_before x y \<longleftrightarrow>
     rk_votes x > rk_votes y \<or>
     (rk_votes x = rk_votes y \<and>
      (rk_score x > rk_score y \<or> (rk_score x = rk_score y \<and> rk_number x < rk_number y)))"

definition entry :: "(int \<rightharpoonup> nat) \<Rightarrow> (int \<rightharpoonup> int) \<Rightarrow> int \<Rightarrow> ranked_entry" where
  "entry uv sm num = \<lparr>rk_number = num, rk_votes = votes_of uv num, rk_score = score_of sm num\<rparr>"

section \<open>Sample inputs\<close>

text \<open>
  A small world: one open pool with a quota of 10, one confirmed participant who selected
  six numbers, and a single stored score row.  In the sample environment no request
  fails; the digest stands for SHA-256 (no statement below depends on its values).
\<close>

definition sample_env :: environment where
  "sample_env =
     \<lparr>fails = (\<lambda>s n. False), random_value = (\<lambda>n. 1 / 2),
      clock = (\<lambda>n. ''2026-01-01T00:00:00.000Z''), sha256_hex = (\<lambda>s. s),
      fraction_to_string = (\<lambda>q. ''0.5'')\<rparr>"

definition sample_db :: database where
  "sample_db =
     \<lparr>bolao = [\<lparr>bolao_id = ''b1'', bolao_name = ''Bolao'', quota_value = 10, status = OPEN,
                closure_hash = None, closure_data = None, closed_at = None\<rparr>],
      users = [\<lparr>user_id = ''u1'', user_name = ''Ana''\<rparr>],
      participations =
        [\<lparr>part_id = ''p1'', part_bolao_id = ''b1'', part_user_id = ''u1'',
          payment_status = CONFIRMED, quota_quantity = Some 1\<rparr>],
      number_selections =
        map (\<lambda>n. \<lparr>sel_participation_id = ''p1'', sel_number = n\<rparr>) [5, 7, 11, 23, 42, 60],
      historical_draws = [],
      number_scores =
        [\<lparr>sc_bolao_id = ''b1'', sc_number = 7, historical_frequency = 20,
          current_popularity = 0, anti_pattern_penalty = 10, final_score = 10,
          last_updated = ''2025-12-31T00:00:00.000Z''\<rparr>],
      final_bets = []\<rparr>"

definition sample_world :: world where
  "sample_world = \<lparr>db = sample_db, requests = 0, randoms = 0, clock_reads = 0\<rparr>"

definition sample_votes :: "int \<rightharpoonup> nat" where
  "sample_votes = [7 \<mapsto> 2, 5 \<mapsto> 1]"

definition sample_scores :: "int \<rightharpoonup> int" where
  "sample_scores = [60 \<mapsto> 3, 7 \<mapsto> - 4]"

text \<open>A closure record, and the same record with one number of its bet changed.\<close>

definition sample_closure :: closure_data where
  "sample_closure =
     \<lparr>cd_bolaoId = ''b1'', cd_bolaoName = ''Bolao'', cd_closedAt = ''2026-01-01T00:00:00.000Z'',
      cd_closedBy = ''admin'', cd_totalFunds = 10, cd_quotaValue = 10, cd_participantCount = 1,
      cd_participants =
        [\<lparr>pd_userId = ''u1'', pd_name = ''Ana'', pd_selectedNumbers = [1, 2, 3, 4, 5, 6]\<rparr>],
      cd_numberToUsers =
        [(1, [''Ana'']), (2, [''Ana'']), (3, [''Ana'']), (4, [''Ana'']), (5, [''Ana'']),
         (6, [''Ana''])],
      cd_financials = \<lparr>cf_betLevel = 6, cf_betCost = 6, cf_surplusBets = 0,
                        cf_remainingFunds = 4\<rparr>,
      cd_finalBets = [\<lparr>bt_type = ''6 '' @ numeros, bt_numbers = [1, 2, 3, 4, 5, 6],
                       bt_cost = 6\<rparr>]\<rparr>"

definition tampered_closure :: closure_data where
  "tampered_closure =
     sample_closure\<lparr>cd_finalBets := [\<lparr>bt_type = ''6 '' @ numeros,
                                       bt_numbers = [1, 2, 3, 4, 5, 7], bt_cost = 6\<rparr>]\<rparr>"

section \<open>The specification's wording of the popularity score\<close>

text \<open>
  The count of a number: how many confirmed participations of the pool selected it; the
  maximum count over the numbers 1 to 60, not below 1; and the inverted score.
\<close>

definition selected_by :: "database \<Rightarrow> uuid \<Rightarrow> int \<Rightarrow> participation_row list" where
  "selected_by d bolaoId n =
     filter (\<lambda>p. part_bolao_id p = bolaoId \<and> payment_status p = CONFIRMED \<and>
                 (\<exists>s\<in>set (number_selections d).
                     sel_participation_id s = part_id p \<and> sel_number s = n))
       (participations d)"

definition pick_count :: "database \<Rightarrow> uuid \<Rightarrow> int \<Rightarrow> nat" where
  "pick_count d bolaoId n = length (selected_by d bolaoId n)"

definition max_count :: "database \<Rightarrow> uuid \<Rightarrow> nat" where
  "max_count d bolaoId = max 1 (Max (set (map (pick_count d bolaoId) [1..60])))"


section \<open>What a run leaves untouched\<close>

text \<open>
  Two worlds have the same pools and final bets when the tables \<open>bolao\<close> and
  \<open>final_bets\<close> are equal in both; an outcome keeps them when its world has the same
  as the world the run started in.  \<open>close_update\<close> is the update of step 8 on one row.
\<close>

definition same_pools :: "world \<Rightarrow> world \<Rightarrow> bool" where
  "same_pools w w' \<longleftrightarrow>
     bolao (db w') = bolao (db w) \<and> final_bets (db w') = final_bets (db w)"

definition keeps_pools :: "world \<Rightarrow> 'a outcome \<Rightarrow> bool" where
  "keeps_pools w r \<longleftrightarrow> same_pools w (snd r)"

definition close_update :: "uuid \<Rightarrow> string \<Rightarrow> closure_data \<Rightarrow> bolao_row \<Rightarrow> bolao_row" where
  "close_update bolaoId hash closureData b =
     (if bolao_id b = bolaoId
      then b\<lparr>status := CLOSED, closure_hash := Some hash,
             closure_data := Some closureData,
             closed_at := Some (cd_closedAt closureData)\<rparr>
      else b)"

text \<open>
  Two environments for the sample world: in the first every insert of final bets fails,
  in the second every update of the pool fails; all other requests succeed.
\<close>

definition insert_fails_env :: environment where
  "insert_fails_env = sample_env\<lparr>fails := (\<lambda>s n. s = InsertFinalBets)\<rparr>"

definition update_fails_env :: environment where
  "update_fails_env = sample_env\<lparr>fails := (\<lambda>s n. s = UpdateBolao)\<rparr>"

section \<open>Properties of the pure components\<close>

subsection \<open>Arithmetic of the runtime\<close>

lemma floor_rat_numeral_divide [simp]:
  "\<lfloor>(numeral a :: rat) / numeral b\<rfloor> = numeral a div numeral b"
  using floor_divide_of_int_eq [of "numeral a" "numeral b", where ?'a = rat] by simp

lemma floor_rat_one_divide [simp]:
  "\<lfloor>1 / (numeral b :: rat)\<rfloor> = 1 div numeral b"
  using floor_divide_of_int_eq [of 1 "numeral b", where ?'a = rat] by simp

subsection \<open>Anti-pattern penalty\<close>

lemma smod_eq_0_iff: "(k::int) smod l = 0 \<longleftrightarrow> k mod l = 0"
  by (cases "k = 0") (simp_all add: signed_modulo_int_def mod_eq_0_iff_dvd sgn_eq_0_iff)

text \<open>
  Claim C8.  For every number from 1 to 60 the penalty lies between 0 and 20 and is the
  sum of the birthday penalty (10, for numbers up to 31), the multiple-of-5 penalty (5)
  and the multiple-of-10 penalty (5), capped at 20; the penalty of 10 is exactly 20.
\<close>

theorem penalty_bounds_and_formula:
  "1 \<le> n \<Longrightarrow> n \<le> 60 \<Longrightarrow>
   0 \<le> calculateAntiPatternPenalty n \<and> calculateAntiPatternPenalty n \<le> 20 \<and>
   calculateAntiPatternPenalty n =
     min 20 ((if 1 \<le> n \<and> n \<le> 31 then PENALTY_birthday else 0) +
             (if n mod 5 = 0 then PENALTY_multipleOf5 else 0) +
             (if n mod 10 = 0 then PENALTY_multipleOf10 else 0)) \<and>
   PENALTY_birthday = 10 \<and> PENALTY_multipleOf5 = 5 \<and> PENALTY_multipleOf10 = 5 \<and>
   calculateAntiPatternPenalty 10 = 20"
  by (simp add: calculateAntiPatternPenalty_def smod_eq_0_iff PENALTY_birthday_def
      PENALTY_multipleOf5_def PENALTY_multipleOf10_def WEIGHT_antiPattern_def Let_def)

theorem penalty_bounds_and_formula_witness:
  "(1::int) \<le> 45 \<and> (45::int) \<le> 60 \<and> calculateAntiPatternPenalty 45 = 5 \<and>
   calculateAntiPatternPenalty 10 = 20"
  using penalty_bounds_and_formula [of 45]
  by (simp add: PENALTY_birthday_def PENALTY_multipleOf5_def PENALTY_multipleOf10_def)

subsection \<open>Bet level\<close>

lemma js_rem_nonneg: "0 \<le> x \<Longrightarrow> js_rem x 6 = x - 6 * of_int \<lfloor>x / 6\<rfloor>"
  by (simp add: js_rem_def)

text \<open>
  Claim C5.  For non-negative funds \<open>calculateBetLevel\<close> returns what the
  specification's rule gives: the first tier of the cost-descending list that the funds
  cover, the surplus, its integer quotient by 6 and its remainder; and the failure
  object (bet level 0, the error text and the message with the funds collected) exactly
  when the funds are below 6.  6 gives level 6 with no surplus bet, 174 gives level 8
  with one surplus bet and nothing left, and 5.99 gives the failure object.
\<close>

theorem calculateBetLevel_resolves:
  assumes "0 \<le> totalFunds"
  shows "(case spec_resolve totalFunds of
            Some (n, surplus, k, leftover) \<Rightarrow>
              is_Level (calculateBetLevel totalFunds) \<and>
              betLevel (calculateBetLevel totalFunds) = n \<and>
              lvSurplusFunds (calculateBetLevel totalFunds) = surplus \<and>
              lvSurplusBets (calculateBetLevel totalFunds) = k \<and>
              lvRemainingFunds (calculateBetLevel totalFunds) = leftover
          | None \<Rightarrow>
              calculateBetLevel totalFunds =
                NoLevel insufficient_error totalFunds (insufficient_message totalFunds))
         \<and> (totalFunds < 6 \<longleftrightarrow> spec_resolve totalFunds = None)
         \<and> (totalFunds < 6 \<longleftrightarrow> betLevel (calculateBetLevel totalFunds) = 0)
         \<and> betLevel (calculateBetLevel 6) = 6 \<and> lvSurplusBets (calculateBetLevel 6) = 0
         \<and> betLevel (calculateBetLevel 174) = 8 \<and> lvSurplusBets (calculateBetLevel 174) = 1
         \<and> lvRemainingFunds (calculateBetLevel 174) = 0
         \<and> calculateBetLevel (599 / 100) =
             NoLevel insufficient_error (599 / 100) (insufficient_message (599 / 100))"
  using assms
  by (simp add: spec_resolve_def spec_tiers_def calculateBetLevel_def BET_LEVELS_def Let_def
      js_rem_nonneg)

theorem calculateBetLevel_resolves_witness:
  "(0::rat) \<le> 1025 / 2 \<and> spec_resolve (1025 / 2) = Some (9, 17 / 2, 1, 5 / 2) \<and>
   betLevel (calculateBetLevel (1025 / 2)) = 9 \<and>
   lvSurplusFunds (calculateBetLevel (1025 / 2)) = 17 / 2 \<and>
   lvSurplusBets (calculateBetLevel (1025 / 2)) = 1 \<and>
   lvRemainingFunds (calculateBetLevel (1025 / 2)) = 5 / 2"
proof -
  have r: "spec_resolve (1025 / 2) = Some (9, 17 / 2, 1, 5 / 2)"
    by (simp add: spec_resolve_def spec_tiers_def Let_def)
  show ?thesis
    using calculateBetLevel_resolves [of "1025 / 2"] unfolding r by simp
qed

subsection \<open>Validation\<close>







subsection \<open>Weighted random selection\<close>

lemma walk_range:
  "walk u off rs j = - 1 \<or> (j \<le> walk u off rs j \<and> walk u off rs j < j + int (length rs))"
proof (induction rs arbitrary: u j)
  case Nil
  then show ?case by simp
next
  case (Cons r rs)
  show ?case
    using Cons.IH [of "u - (weight r + off)" "j + 1"] by (auto simp: Let_def)
qed

lemma draw_Cons:
  "\<exists>idx < length (r # rest).
     draw u (r # rest) =
       Some (item ((r # rest) ! idx), take idx (r # rest) @ drop (Suc idx) (r # rest))"
proof -
  define off where "off = draw_offset (minWeight r rest)"
  define tw where "tw = foldl (\<lambda>sum r. sum + (weight r + off)) 0 (r # rest)"
  define w where "w = walk (u * tw) off (r # rest) 0"
  define idx where "idx = (if w = - 1 then int (length (r # rest)) - 1 else w)"
  have "0 \<le> idx \<and> idx < int (length (r # rest))"
    using walk_range [of "u * tw" off "r # rest" 0] by (auto simp: idx_def w_def)
  then have "nat idx < length (r # rest)" by linarith
  moreover have "draw u (r # rest) =
      Some (item ((r # rest) ! nat idx), take (nat idx) (r # rest) @ drop (Suc (nat idx)) (r # rest))"
    by (simp only: draw.simps Let_def idx_def w_def tw_def off_def)
  ultimately show ?thesis by blast
qed

lemma draw_Some:
  assumes "remaining \<noteq> []"
  shows "\<exists>idx < length remaining.
           draw u remaining =
             Some (item (remaining ! idx), take idx remaining @ drop (Suc idx) remaining)"
  using assms draw_Cons by (cases remaining) blast+

lemma draws_Some:
  assumes "k \<le> length remaining"
  shows "\<exists>sel (rem' :: 'a weighted list). draws rnd i k remaining selected = Some sel \<and>
           length sel = length selected + k \<and>
           mset sel + mset (map item rem') = mset selected + mset (map item remaining)"
  using assms
proof (induction k arbitrary: i remaining selected)
  case 0
  have "draws rnd i 0 remaining selected = Some selected \<and>
        length selected = length selected + 0 \<and>
        mset selected + mset (map item remaining) = mset selected + mset (map item remaining)"
    by simp
  then show ?case by blast
next
  case (Suc k)
  then have ne: "remaining \<noteq> []" by auto
  from draw_Some [OF ne, of "rnd i"] obtain idx where idx: "idx < length remaining"
    and d: "draw (rnd i) remaining =
      Some (item (remaining ! idx), take idx remaining @ drop (Suc idx) remaining)"
    by blast
  let ?rem = "take idx remaining @ drop (Suc idx) remaining"
  let ?x = "item (remaining ! idx)"
  have len: "k \<le> length ?rem" using Suc.prems idx by auto
  from Suc.IH [OF len, of "Suc i" "selected @ [?x]"]
  obtain sel and rem' :: "'a weighted list"
    where s: "draws rnd (Suc i) k ?rem (selected @ [?x]) = Some sel"
    and l: "length sel = length (selected @ [?x]) + k"
    and m: "mset sel + mset (map item rem') = mset (selected @ [?x]) + mset (map item ?rem)"
    by blast
  have "mset (map item remaining) = {#?x#} + mset (map item ?rem)"
    by (subst (1) id_take_nth_drop [OF idx]) simp
  with m have "mset sel + mset (map item rem') = mset selected + mset (map item remaining)"
    by simp
  with s l d show ?case by auto
qed

lemma selection_Some:
  fixes items :: "'a weighted list"
  shows "\<exists>sel (rem' :: 'a weighted list).
           weightedRandomSelection rnd items cnt = Some sel \<and>
           length sel = min cnt (length items) \<and>
           mset (sel @ map item rem') = mset (map item items)"
proof (cases "length items \<le> cnt")
  case True
  have "weightedRandomSelection rnd items cnt = Some (map item items) \<and>
        length (map item items) = min cnt (length items) \<and>
        mset (map item items @ map item ([] :: 'a weighted list)) = mset (map item items)"
    using True by (simp add: weightedRandomSelection_def)
  then show ?thesis by blast
next
  case False
  then have "cnt \<le> length items" by simp
  from draws_Some [OF this, of rnd 0 "[]"]
  obtain sel and rem' :: "'a weighted list"
    where s: "draws rnd 0 cnt items [] = Some sel"
    and l: "length sel = cnt"
    and m: "mset sel + mset (map item rem') = mset (map item items)"
    by auto
  have "weightedRandomSelection rnd items cnt = Some sel \<and>
        length sel = min cnt (length items) \<and>
        mset (sel @ map item rem') = mset (map item items)"
    using False s l m by (simp add: weightedRandomSelection_def)
  then show ?thesis by blast
qed

text \<open>
  Claim C9.  On items with pairwise distinct values, for every count and whatever the
  random source returns, \<open>weightedRandomSelection\<close> returns a list (it does not
  throw) without repeated values, drawn from the items' values, whose length is the
  smaller of the count and the number of items; when the count is at least the number
  of items the list is all the items' values.
\<close>

theorem weightedRandomSelection_distinct:
  fixes items :: "'a weighted list"
  assumes "distinct (map item items)"
  shows "\<exists>sel. weightedRandomSelection rnd items cnt = Some sel \<and>
           distinct sel \<and> length sel = min cnt (length items) \<and>
           set sel \<subseteq> set (map item items) \<and>
           (cnt \<ge> length items \<longrightarrow> sel = map item items)"
proof -
  from selection_Some [of rnd items cnt]
  obtain sel and rem' :: "'a weighted list"
    where s: "weightedRandomSelection rnd items cnt = Some sel"
    and l: "length sel = min cnt (length items)"
    and m: "mset (sel @ map item rem') = mset (map item items)"
    by blast
  have "distinct (sel @ map item rem')"
    using mset_eq_imp_distinct_iff [OF m] assms by simp
  then have "distinct sel" by simp
  moreover have "set sel \<subseteq> set (map item items)"
    using mset_eq_setD [OF m] by auto
  moreover have "sel = map item items" if "cnt \<ge> length items"
    using that s by (simp add: weightedRandomSelection_def)
  ultimately show ?thesis using s l by simp
qed

theorem weightedRandomSelection_distinct_witness:
  "distinct (map item [\<lparr>item = 10::int, weight = - 3\<rparr>, \<lparr>item = 20, weight = 0\<rparr>,
                      \<lparr>item = 30, weight = 5 / 2\<rparr>]) \<and>
   (\<exists>sel. weightedRandomSelection (\<lambda>i. 1 / 2)
             [\<lparr>item = 10::int, weight = - 3\<rparr>, \<lparr>item = 20, weight = 0\<rparr>,
              \<lparr>item = 30, weight = 5 / 2\<rparr>] 2 = Some sel \<and>
           distinct sel \<and> length sel = 2)"
  using weightedRandomSelection_distinct
    [of "[\<lparr>item = 10::int, weight = - 3\<rparr>, \<lparr>item = 20, weight = 0\<rparr>, \<lparr>item = 30, weight = 5 / 2\<rparr>]"
        "\<lambda>i. 1 / 2" 2]
  by auto





subsection \<open>Closure hash\<close>

lemma sorted_closure_keys:
  "sort (map fst (closure_json c)) =
     [''bolaoId'', ''bolaoName'', ''closedAt'', ''closedBy'', ''finalBets'', ''financials'',
      ''numberToUsers'', ''participantCount'', ''participants'', ''quotaValue'', ''totalFunds'']"
  unfolding closure_json_def by code_simp

text \<open>
  Claim C1 at a failing input.  Verifying a record against its own hash succeeds; but
  the record whose bet has the number 7 in place of 6 has, for every digest function,
  the same hash as the original, and so verifies against the original's hash: the
  array of top-level keys given to \<open>JSON.stringify\<close> filters the keys of the nested
  objects too, and the bets are written as empty objects.
\<close>

theorem tampered_closure_same_hash:
  "verifyClosureHash env r (generateClosureHash env r) \<and>
   closure_json tampered_closure \<noteq> closure_json sample_closure \<and>
   generateClosureHash env (closure_json tampered_closure) =
     generateClosureHash env (closure_json sample_closure) \<and>
   verifyClosureHash env (closure_json tampered_closure)
     (generateClosureHash env (closure_json sample_closure))"
proof -
  have same: "generateClosureHash env (closure_json tampered_closure) =
      generateClosureHash env (closure_json sample_closure)"
    unfolding generateClosureHash_def Let_def sorted_closure_keys JSON_stringify_def
    by (simp add: closure_json_def tampered_closure_def sample_closure_def
        List.map_filter_def numbers_json_def)
  have "closure_json tampered_closure \<noteq> closure_json sample_closure"
    by (simp add: closure_json_def tampered_closure_def sample_closure_def numbers_json_def)
  then show ?thesis
    using same by (simp add: verifyClosureHash_def)
qed

lemma participants_empty_objects:
  "serialize_elements env closure_keys
     (map (\<lambda>p. JObject [(''userId'', JString (pd_userId p)), (''name'', JString (pd_name p)),
                   (''selectedNumbers'', numbers_json (pd_selectedNumbers p))]) ps) =
   replicate (length ps) ''{}''"
  by (induction ps) (simp_all add: closure_keys_def List.map_filter_def)

lemma bets_empty_objects:
  "serialize_elements env closure_keys
     (map (\<lambda>b. JObject [(''type'', JString (bt_type b)), (''numbers'', numbers_json (bt_numbers b)),
                   (''cost'', JNumber (bt_cost b))]) bs) =
   replicate (length bs) ''{}''"
  by (induction bs) (simp_all add: closure_keys_def List.map_filter_def)

lemma sorted_closure_keys': "sort (map fst (closure_json c)) = closure_keys"
  unfolding closure_keys_def by (rule sorted_closure_keys)

lemma remdups_closure_keys: "remdups closure_keys = closure_keys"
  unfolding closure_keys_def by simp

lemma over_closure_keys:
  "List.map_filter g closure_keys =
   List.map_filter g [''bolaoId'', ''bolaoName'', ''closedAt'', ''closedBy'', ''finalBets'',
      ''financials'', ''numberToUsers'', ''participantCount'', ''participants'', ''quotaValue'',
      ''totalFunds'']"
  by (simp only: closure_keys_def)

text \<open>
  The extent of the defect: the hash of a closure record does not depend on its
  financial breakdown, nor on its bets and participants beyond how many they are.
\<close>

lemma hash_ignores_nested:
  assumes "length bs = length (cd_finalBets c)" "length ps = length (cd_participants c)"
  shows "generateClosureHash env
           (closure_json (c\<lparr>cd_finalBets := bs, cd_participants := ps, cd_financials := f\<rparr>)) =
         generateClosureHash env (closure_json c)"
proof -
  have "serialize env closure_keys
          (JObject (closure_json (c\<lparr>cd_finalBets := bs, cd_participants := ps,
                                     cd_financials := f\<rparr>)))
      = serialize env closure_keys (JObject (closure_json c))"
    by (simp add: closure_json_def over_closure_keys List.map_filter_simps
        participants_empty_objects bets_empty_objects assms)
  then show ?thesis
    by (simp add: generateClosureHash_def sorted_closure_keys' JSON_stringify_def
        remdups_closure_keys)
qed

subsection \<open>Consolidation of the main bet\<close>

lemma compare_ranked_le:
  "compare_ranked x y \<le> 0 \<longleftrightarrow>
     rk_votes x > rk_votes y \<or> (rk_votes x = rk_votes y \<and> rk_score x \<ge> rk_score y)"
  by (auto simp: compare_ranked_def)

lemma set_insert_sorted: "set (insert_sorted cmp x ys) = insert x (set ys)"
  by (induction ys) auto

lemma mset_insert_sorted: "mset (insert_sorted cmp x ys) = add_mset x (mset ys)"
  by (induction ys) auto

lemma mset_Array_sort: "mset (Array_sort cmp xs) = mset xs"
  by (induction xs) (simp_all add: Array_sort_def mset_insert_sorted)

lemma set_Array_sort: "set (Array_sort cmp xs) = set xs"
  using mset_Array_sort [of cmp xs] by (metis set_mset_mset)

lemma insert_sorted_before:
  assumes "sorted_wrt entry_before ys" and "\<forall>y\<in>set ys. rk_number x < rk_number y"
  shows "sorted_wrt entry_before (insert_sorted compare_ranked x ys)"
  using assms
proof (induction ys)
  case Nil
  then show ?case by simp
next
  case (Cons y ys)
  show ?case
  proof (cases "compare_ranked x y \<le> 0")
    case True
    have "entry_before x z" if "z \<in> set (y # ys)" for z
    proof -
      have "z = y \<or> entry_before y z" using Cons.prems(1) that by auto
      moreover have "rk_number x < rk_number z" using Cons.prems(2) that by auto
      moreover have "rk_number x < rk_number y" using Cons.prems(2) by auto
      ultimately show ?thesis
        using True unfolding compare_ranked_le entry_before_def by auto
    qed
    then show ?thesis using True Cons.prems(1) by auto
  next
    case False
    then have "entry_before y x"
      unfolding compare_ranked_le entry_before_def by auto
    moreover have "sorted_wrt entry_before (insert_sorted compare_ranked x ys)"
      using Cons by auto
    ultimately show ?thesis
      using False Cons.prems(1) by (auto simp: set_insert_sorted)
  qed
qed

lemma Array_sort_before:
  assumes "sorted_wrt (\<lambda>a b. rk_number a < rk_number b) xs"
  shows "sorted_wrt entry_before (Array_sort compare_ranked xs)"
  using assms
proof (induction xs)
  case Nil
  then show ?case by (simp add: Array_sort_def)
next
  case (Cons x xs)
  have "Array_sort compare_ranked (x # xs) =
        insert_sorted compare_ranked x (Array_sort compare_ranked xs)"
    by (simp add: Array_sort_def)
  moreover have "sorted_wrt entry_before (Array_sort compare_ranked xs)"
    using Cons by simp
  moreover have "\<forall>y\<in>set (Array_sort compare_ranked xs). rk_number x < rk_number y"
    using Cons.prems by (simp add: set_Array_sort)
  ultimately show ?case by (simp add: insert_sorted_before)
qed

lemma ranked_numbers_entry: "ranked_numbers uv sm = Array_sort compare_ranked (map (entry uv sm) [1..60])"
  unfolding ranked_numbers_def entry_def [abs_def] ..

lemma entry_before_entry: "entry_before (entry uv sm a) (entry uv sm b) = ranks_before uv sm a b"
  by (simp add: entry_before_def entry_def ranks_before_def)

lemma ranked_entries: "x \<in> set (ranked_numbers uv sm) \<Longrightarrow> x = entry uv sm (rk_number x)"
  by (auto simp: ranked_numbers_entry set_Array_sort entry_def)

lemma mset_ranked_numbers: "mset (map rk_number (ranked_numbers uv sm)) = mset [1..60]"
proof -
  have "mset (ranked_numbers uv sm) = mset (map (entry uv sm) [1..60])"
    by (simp only: ranked_numbers_entry mset_Array_sort)
  then have "mset (map rk_number (ranked_numbers uv sm)) = mset (map rk_number (map (entry uv sm) [1..60]))"
    by (metis mset_map)
  also have "map rk_number (map (entry uv sm) [1..60]) = [1..60]"
    by (simp add: entry_def comp_def)
  finally show ?thesis .
qed

lemma sorted_ranked_numbers: "sorted_wrt entry_before (ranked_numbers uv sm)"
  unfolding ranked_numbers_entry
  by (rule Array_sort_before) (simp add: sorted_wrt_map entry_def sorted_wrt_upto)

lemma sorted_ranked_numbers': "sorted_wrt (ranks_before uv sm) (map rk_number (ranked_numbers uv sm))"
proof -
  have "sorted_wrt (\<lambda>x y. ranks_before uv sm (rk_number x) (rk_number y)) (ranked_numbers uv sm)"
  proof (rule sorted_wrt_mono_rel [OF _ sorted_ranked_numbers])
    fix x y assume "x \<in> set (ranked_numbers uv sm)" "y \<in> set (ranked_numbers uv sm)" "entry_before x y"
    then show "ranks_before uv sm (rk_number x) (rk_number y)"
      using ranked_entries entry_before_entry by metis
  qed
  then show ?thesis by (simp add: sorted_wrt_map)
qed

lemma top_ranked:
  fixes uv sm k
  defines "sel \<equiv> consolidate uv sm k"
  shows "sel = sort (take k (map rk_number (ranked_numbers uv sm)))"
    and "sorted sel" and "distinct sel" and "length sel = min k 60" and "set sel \<subseteq> {1..60}"
    and "\<forall>a\<in>set sel. \<forall>b\<in>{1..60} - set sel. ranks_before uv sm a b"
proof -
  let ?R = "map rk_number (ranked_numbers uv sm)"
  have m: "mset ?R = mset [1..60]" by (rule mset_ranked_numbers)
  have d: "distinct ?R" using mset_eq_imp_distinct_iff [OF m] by simp
  have s: "set ?R = {1..60}" using mset_eq_setD [OF m] by simp
  have l: "length ?R = 60" using mset_eq_length [OF m] by simp
  show e: "sel = sort (take k ?R)" by (simp add: sel_def consolidate_def take_map)
  show "sorted sel" by (simp add: e)
  show "distinct sel" using d by (simp add: e distinct_take)
  show "length sel = min k 60" using l by (simp add: e)
  have st: "set sel = set (take k ?R)" by (simp add: e)
  show "set sel \<subseteq> {1..60}" using s set_take_subset [of k ?R] by (auto simp: st)
  have split: "?R = take k ?R @ drop k ?R" by simp
  have bd: "\<forall>a\<in>set (take k ?R). \<forall>b\<in>set (drop k ?R). ranks_before uv sm a b"
    using sorted_wrt_append [of "ranks_before uv sm" "take k ?R" "drop k ?R"]
      sorted_ranked_numbers' [of uv sm] by simp
  have "set (take k ?R) \<union> set (drop k ?R) = {1..60}"
    using s by (metis append_take_drop_id set_append)
  then have "{1..60} - set sel \<subseteq> set (drop k ?R)" by (auto simp: st)
  then show "\<forall>a\<in>set sel. \<forall>b\<in>{1..60} - set sel. ranks_before uv sm a b"
    using bd by (auto simp: st)
qed

lemma votes_of_count_votes:
  "votes_of (foldl (\<lambda>userVotes sel. userVotes(sel_number sel \<mapsto> votes_of userVotes (sel_number sel) + 1)) uv sels) n
   = votes_of uv n + length (filter (\<lambda>s. sel_number s = n) sels)"
  by (induction sels arbitrary: uv) (auto simp: votes_of_def)

lemma votes_of_count_votes': "votes_of (count_votes sels) n = length (filter (\<lambda>s. sel_number s = n) sels)"
  using votes_of_count_votes [of Map.empty sels n] by (simp add: count_votes_def votes_of_def)

text \<open>
  Claim C6.  For all votes and scores, the ranking of \<open>consolidateFinalNumbers\<close> is
  the numbers 1 to 60 in the order of more votes first, then higher score, then lower
  number; the result is the first \<open>targetCount\<close> numbers of the ranking in ascending
  order: a duplicate-free sorted list of \<open>min targetCount 60\<close> numbers, each of which
  ranks before every number left out.  The ranking is a strict total order, so the
  result is determined by the votes and scores alone.  The function returns this result
  for the votes counted from the confirmed selections and the stored scores whenever
  its two requests succeed.
\<close>

theorem consolidate_takes_top_ranked:
  "sorted_wrt (ranks_before uv sm) (map rk_number (ranked_numbers uv sm)) \<and>
   mset (map rk_number (ranked_numbers uv sm)) = mset [1..60] \<and>
   consolidate uv sm k = sort (take k (map rk_number (ranked_numbers uv sm))) \<and>
   sorted (consolidate uv sm k) \<and> distinct (consolidate uv sm k) \<and>
   length (consolidate uv sm k) = min k 60 \<and>
   set (consolidate uv sm k) \<subseteq> {1..60} \<and>
   (\<forall>a\<in>set (consolidate uv sm k). \<forall>b\<in>{1..60} - set (consolidate uv sm k).
      ranks_before uv sm a b) \<and>
   votes_of (count_votes sels) n = length (filter (\<lambda>s. sel_number s = n) sels) \<and>
   (\<not> fails env SelectVotes (requests w) \<and> \<not> fails env SelectScoreMap (Suc (requests w)) \<longrightarrow>
      fst (consolidateFinalNumbers env w bolaoId k) =
        Inr (consolidate (count_votes (confirmed_selections (db w) bolaoId))
               (score_map (filter (\<lambda>r. sc_bolao_id r = bolaoId) (number_scores (db w)))) k))"
proof -
  have "fst (consolidateFinalNumbers env w bolaoId k) =
        Inr (consolidate (count_votes (confirmed_selections (db w) bolaoId))
               (score_map (filter (\<lambda>r. sc_bolao_id r = bolaoId) (number_scores (db w)))) k)"
    if "\<not> fails env SelectVotes (requests w)" "\<not> fails env SelectScoreMap (Suc (requests w))"
    using that by (simp add: consolidateFinalNumbers_def request_def Let_def)
  then show ?thesis
    using top_ranked [of uv sm k] sorted_ranked_numbers' [of uv sm]
      mset_ranked_numbers [of uv sm] votes_of_count_votes' [of sels n]
    by blast
qed

theorem consolidate_takes_top_ranked_witness:
  "consolidate sample_votes sample_scores 6 = [1, 2, 3, 5, 7, 60] \<and>
   ranks_before sample_votes sample_scores 60 4 \<and>
   ranks_before sample_votes sample_scores 3 4 \<and>
   fst (consolidateFinalNumbers sample_env sample_world ''b1'' 6) =
     Inr (consolidate (count_votes (confirmed_selections (db sample_world) ''b1''))
            (score_map (filter (\<lambda>r. sc_bolao_id r = ''b1'') (number_scores (db sample_world))))
            6)"
proof -
  have e: "consolidate sample_votes sample_scores 6 = [1, 2, 3, 5, 7, 60]"
    unfolding sample_votes_def sample_scores_def by code_simp
  have f: "\<not> fails sample_env SelectVotes (requests sample_world) \<and>
           \<not> fails sample_env SelectScoreMap (Suc (requests sample_world))"
    by (simp add: sample_env_def)
  show ?thesis
    using consolidate_takes_top_ranked
      [of sample_votes sample_scores 6 "[]" 0 sample_env sample_world "''b1''"] f
    unfolding e by simp
qed

section \<open>Properties of the scores\<close>

subsection \<open>The sixty scores\<close>

lemma request_eq: "request env s w = (fails env s (requests w), w\<lparr>requests := Suc (requests w)\<rparr>)"
  by (simp add: request_def)

lemma length_tally [simp]: "length (tally c n) = length c"
  by (simp add: tally_def)

lemma length_foldl_tally [simp]: "length (foldl tally c ns) = length c"
  by (induction ns arbitrary: c) simp_all

lemma length_frequency [simp]:
  "length (foldl (\<lambda>frequency d. foldl tally frequency (draw_numbers d)) c ds) = length c"
  by (induction ds arbitrary: c) simp_all

lemma length_popularity [simp]:
  "length (foldl (\<lambda>popularity sel. tally popularity (sel_number sel)) c sels) = length c"
  by (induction sels arbitrary: c) simp_all

lemma foldl_upd:
  "foldl (\<lambda>m k. m(k \<mapsto> f k)) m0 ks n = (if n \<in> set ks then Some (f n) else m0 n)"
  by (induction ks arbitrary: m0) auto

lemma popularity_scores_eq:
  "popularity_scores pop n =
     (if n \<in> {1..60} then
        Some (Math_round ((1 - of_int (pop ! nat n) / of_int (fold max (drop 1 pop) 1)) *
                          of_int WEIGHT_popularity))
      else None)"
  unfolding popularity_scores_def Let_def by (simp add: foldl_upd)

lemma historical_scores_dom:
  assumes "length frequency = 61" "n \<in> {1..60}"
  shows "\<exists>y. historical_scores frequency n = Some y"
proof -
  obtain f fs where d: "drop 1 frequency = f # fs"
    using assms(1) by (cases "drop 1 frequency") auto
  show ?thesis
    unfolding historical_scores_def d Let_def
    using assms(2) by (cases "fold max fs f - fold min fs f = 0") (simp_all add: foldl_upd)
qed

lemma all_present_rows:
  assumes "\<forall>n\<in>set nums. hs n \<noteq> None \<and> ps n \<noteq> None"
  shows "\<exists>rows. all_present (final_score_rows env b hs ps t nums) = Some rows \<and>
           map sc_number rows = nums"
  using assms
proof (induction nums arbitrary: t)
  case Nil
  then show ?case by simp
next
  case (Cons n nums)
  then obtain rows where r: "all_present (final_score_rows env b hs ps (Suc t) nums) = Some rows"
      "map sc_number rows = nums"
    by fastforce
  obtain h p where "hs n = Some h" "ps n = Some p" using Cons.prems by auto
  then show ?case using r by (simp add: final_score_row_def Let_def)
qed

lemma all_present_numbers:
  "all_present (final_score_rows env b hs ps t nums) = Some rows \<Longrightarrow> map sc_number rows = nums"
proof (induction nums arbitrary: t rows)
  case Nil
  then show ?case by simp
next
  case (Cons n nums)
  then show ?case
    by (auto simp: final_score_row_def Let_def split: option.splits)
qed

lemma calculateAllScores_numbers:
  assumes "calculateAllScores env w b = (Inr scores, w')"
  shows "map sc_number scores = [1..60]"
  using assms
  by (auto simp: calculateAllScores_def andThen_def Let_def request_eq
      calculateHistoricalFrequency_def calculatePopularity_def
      split: prod.splits sum.splits if_splits option.splits bool.splits
      dest: all_present_numbers)

lemma calculateAllScores_returns:
  assumes "\<forall>s n. \<not> fails env s n"
  shows "\<exists>scores w'. calculateAllScores env w b = (Inr scores, w')"
proof -
  let ?hs = "historical_scores (foldl (\<lambda>frequency d. foldl tally frequency (draw_numbers d))
               (replicate 61 0) (historical_draws (db w)))"
  let ?ps = "popularity_scores (foldl (\<lambda>popularity sel. tally popularity (sel_number sel))
               (replicate 61 0) (confirmed_selections (db w) b))"
  have "\<exists>y. ?hs n = Some y" if "n \<in> {1..60}" for n
    using that by (intro historical_scores_dom) simp_all
  then have "\<forall>n\<in>set [1..60]. ?hs n \<noteq> None \<and> ?ps n \<noteq> None"
    by (auto simp: popularity_scores_eq)
  from all_present_rows [OF this]
  obtain rows where "all_present (final_score_rows env b ?hs ?ps (clock_reads w) [1..60]) = Some rows"
    by blast
  then show ?thesis
    using assms
    by (simp add: calculateAllScores_def andThen_def Let_def request_eq
        calculateHistoricalFrequency_def calculatePopularity_def)
qed

lemma sorted_stored: "sorted (map sc_number (stored_scores d b))"
  by (simp add: stored_scores_def)

text \<open>
  Claim C3, as the code has it.  When \<open>getScores\<close> recomputes, that is when the flag
  is set or the pool has no stored row, and it returns, the result is exactly the 60
  entries of the numbers 1 to 60 in ascending order.  When the flag is not set and the
  pool has stored rows it returns the stored rows in ascending order of the number,
  however many they are.  If no request fails it returns.
\<close>

theorem getScores_sixty_when_recomputed:
  "(getScores env w b recalc = (Inr scores, w') \<and> (recalc \<or> stored_scores (db w) b = []) \<longrightarrow>
      map sc_number scores = [1..60] \<and> length scores = 60) \<and>
   (getScores env w b False = (Inr scores, w') \<and> stored_scores (db w) b \<noteq> [] \<longrightarrow>
      scores = stored_scores (db w) b \<and> sorted (map sc_number scores)) \<and>
   ((\<forall>s n. \<not> fails env s n) \<longrightarrow> (\<exists>scores w'. getScores env w b recalc = (Inr scores, w')))"
proof -
  have len: "length scores = 60" if "map sc_number scores = [1..60]"
    using arg_cong [OF that, of length] by simp
  have a: "map sc_number scores = [1..60]"
    if "getScores env w b recalc = (Inr scores, w')" "recalc \<or> stored_scores (db w) b = []"
    using that
    by (auto simp: getScores_def request_eq Let_def split: if_splits bool.splits
        dest: calculateAllScores_numbers)
  have b: "scores = stored_scores (db w) b \<and> sorted (map sc_number scores)"
    if "getScores env w b False = (Inr scores, w')" "stored_scores (db w) b \<noteq> []"
    using that
    by (auto simp: getScores_def request_eq Let_def sorted_stored split: if_splits bool.splits)
  have c: "\<exists>scores w'. getScores env w b recalc = (Inr scores, w')" if "\<forall>s n. \<not> fails env s n"
    using that calculateAllScores_returns [OF that]
    by (simp add: getScores_def request_eq Let_def)
  show ?thesis using a b c len by blast
qed

theorem getScores_sixty_when_recomputed_witness:
  "(\<exists>scores w'. getScores sample_env sample_world ''b1'' True = (Inr scores, w') \<and>
      map sc_number scores = [1..60] \<and> length scores = 60)"
proof -
  have "\<forall>s n. \<not> fails sample_env s n" by (simp add: sample_env_def)
  then obtain scores w' where g: "getScores sample_env sample_world ''b1'' True = (Inr scores, w')"
    using getScores_sixty_when_recomputed [of sample_env sample_world "''b1''" True]
    by blast
  then have "map sc_number scores = [1..60] \<and> length scores = 60"
    using getScores_sixty_when_recomputed [of sample_env sample_world "''b1''" True scores w']
    by blast
  with g show ?thesis by blast
qed

text \<open>
  The claim as stated fails on the sample world, whose pool has a single stored row:
  without the flag \<open>getScores\<close> returns that one row.
\<close>

theorem getScores_incomplete_counterexample:
  "fst (getScores sample_env sample_world ''b1'' False) = Inr (number_scores sample_db) \<and>
   length (number_scores sample_db) = 1"
  by (simp add: getScores_def request_eq sample_world_def sample_env_def sample_db_def
      stored_scores_def Let_def)


subsection \<open>Popularity\<close>










lemma max_count_pos: "1 \<le> max_count d b"
  by (simp add: max_count_def)







section \<open>Properties of the closure\<close>

subsection \<open>The pools before the status update\<close>

lemma keeps_andThen:
  assumes "keeps_pools w r"
    and "\<And>a w'. same_pools w w' \<Longrightarrow> keeps_pools w' (f a w')"
  shows "keeps_pools w (andThen r f)"
proof (cases r)
  case (Pair x w1)
  then show ?thesis
    using assms by (cases x) (auto simp: andThen_def keeps_pools_def same_pools_def)
qed

lemma keeps_trans:
  "same_pools w w' \<Longrightarrow> keeps_pools w' r \<Longrightarrow> keeps_pools w r"
  by (simp add: keeps_pools_def same_pools_def)

lemma same_pools_requests [simp]: "same_pools w (w\<lparr>requests := n\<rparr>)"
  by (simp add: same_pools_def)

lemma same_pools_refl [simp]: "same_pools w w"
  by (simp add: same_pools_def)

lemma keeps_return: "same_pools w w' \<Longrightarrow> keeps_pools w (x, w')"
  by (simp add: keeps_pools_def)

lemmas keeps_defs = keeps_pools_def same_pools_def

lemma keeps_calculateHistoricalFrequency: "keeps_pools w (calculateHistoricalFrequency env w)"
  by (simp add: keeps_defs calculateHistoricalFrequency_def request_eq Let_def
      split: bool.splits)

lemma keeps_calculatePopularity: "keeps_pools w (calculatePopularity env w b)"
  by (simp add: keeps_defs calculatePopularity_def request_eq Let_def split: bool.splits)

lemma keeps_upsert:
  "keeps_pools w
     (let rows = final_score_rows env b hs ps (clock_reads w) [1..60];
          w = w\<lparr>clock_reads := clock_reads w + 60\<rparr>
      in case request env UpsertScores w of
           (True, w) \<Rightarrow> (Inl (StorageError UpsertScores), w)
         | (False, w) \<Rightarrow>
             (case all_present rows of
                None \<Rightarrow> (Inl (StorageError UpsertScores), w)
              | Some finalScores \<Rightarrow>
                  (Inr finalScores,
                   w\<lparr>db := (db w)\<lparr>number_scores :=
                           foldl (\<lambda>t r. upsert_score r t) (number_scores (db w))
                             finalScores\<rparr>\<rparr>)))"
  by (simp add: keeps_defs request_eq Let_def split: bool.splits option.splits)

lemma keeps_calculateAllScores: "keeps_pools w (calculateAllScores env w b)"
proof -
  obtain h w1 where h: "calculateHistoricalFrequency env w = (h, w1)" by fastforce
  obtain p w2 where p: "calculatePopularity env w1 b = (p, w2)" by fastforce
  have 1: "same_pools w w1"
    using keeps_calculateHistoricalFrequency [of w env] by (simp add: keeps_pools_def h)
  have 2: "same_pools w1 w2"
    using keeps_calculatePopularity [of w1 env b] by (simp add: keeps_pools_def p)
  have 3: "same_pools w w2"
    using 1 2 by (simp add: same_pools_def)
  have "keeps_pools w2 (andThen (h, w2) (\<lambda>historicalScores w.
      andThen (p, w) (\<lambda>popularityScores w.
        (let rows = final_score_rows env b historicalScores popularityScores
                      (clock_reads w) [1..60];
             w = w\<lparr>clock_reads := clock_reads w + 60\<rparr>
         in case request env UpsertScores w of
              (True, w) \<Rightarrow> (Inl (StorageError UpsertScores), w)
            | (False, w) \<Rightarrow>
                (case all_present rows of
                   None \<Rightarrow> (Inl (StorageError UpsertScores), w)
                 | Some finalScores \<Rightarrow>
                     (Inr finalScores,
                      w\<lparr>db := (db w)\<lparr>number_scores :=
                              foldl (\<lambda>t r. upsert_score r t) (number_scores (db w))
                                finalScores\<rparr>\<rparr>))))))"
    by (intro keeps_andThen keeps_return keeps_upsert) simp_all
  from keeps_trans [OF 3 this] show ?thesis
    by (simp add: calculateAllScores_def h p)
qed

lemma keeps_getScores: "keeps_pools w (getScores env w b recalc)"
proof -
  have "keeps_pools w (calculateAllScores env (w\<lparr>requests := Suc (requests w)\<rparr>) b)"
    by (rule keeps_trans [OF _ keeps_calculateAllScores]) simp
  then show ?thesis
    using keeps_calculateAllScores [of w env b]
    by (auto simp: getScores_def request_eq Let_def keeps_defs split: bool.splits)
qed

lemma keeps_generate: "keeps_pools w (generateWeightedRandomNumbers env w scores cnt)"
  by (simp add: keeps_defs generateWeightedRandomNumbers_def Let_def split: option.splits)

lemma keeps_autogenerate: "keeps_pools w (autogenerate env scores participants w)"
proof (induction participants arbitrary: w)
  case Nil
  then show ?case by (simp add: keeps_defs)
next
  case (Cons p ps)
  have rest: "keeps_pools w0 (andThen (autogenerate env scores ps w1) (\<lambda>ps w. (Inr (q # ps), w)))"
    if "same_pools w0 w1" for w0 w1 q
    by (rule keeps_trans [OF that]) (intro keeps_andThen Cons.IH keeps_return, simp)
  have ins: "keeps_pools w1
     (let selections = map (\<lambda>num. \<lparr>sel_participation_id = pt_id p,
                                   sel_number = num\<rparr>) generated
      in case request env InsertSelections w1 of
           (True, w) \<Rightarrow>
             andThen (autogenerate env scores ps w)
               (\<lambda>ps w. (Inr (p # ps), w))
         | (False, w) \<Rightarrow>
             andThen (autogenerate env scores ps
                        (w\<lparr>db := (db w)\<lparr>number_selections :=
                               number_selections (db w) @ selections\<rparr>\<rparr>))
               (\<lambda>ps w.
                  (Inr (p\<lparr>pt_number_selections :=
                                      map sel_number selections\<rparr> # ps), w)))" for w1 generated
  proof (cases "fails env InsertSelections (requests w1)")
    case True
    then show ?thesis by (simp add: request_eq Let_def rest)
  next
    case False
    then show ?thesis
      by (simp add: request_eq Let_def) (rule rest, simp add: same_pools_def)
  qed
  show ?case
  proof (cases "length (pt_number_selections p) = 0")
    case False
    then show ?thesis using rest [of w w p] by simp
  next
    case True
    show ?thesis
    proof (cases "pt_users p")
      case None
      then show ?thesis using True by (simp add: keeps_defs)
    next
      case (Some u)
      have "keeps_pools w (andThen (generateWeightedRandomNumbers env w (score_pairs scores) 6)
               (\<lambda>generated w.
                  (let selections = map (\<lambda>num. \<lparr>sel_participation_id = pt_id p,
                                                sel_number = num\<rparr>) generated
                   in case request env InsertSelections w of
                        (True, w) \<Rightarrow>
                          andThen (autogenerate env scores ps w)
                            (\<lambda>ps w. (Inr (p # ps), w))
                      | (False, w) \<Rightarrow>
                          andThen (autogenerate env scores ps
                                     (w\<lparr>db := (db w)\<lparr>number_selections :=
                                            number_selections (db w) @ selections\<rparr>\<rparr>))
                            (\<lambda>ps w.
                               (Inr (p\<lparr>pt_number_selections :=
                                                   map sel_number selections\<rparr> # ps), w)))))"
        by (intro keeps_andThen keeps_generate ins)
      then show ?thesis using True Some by simp
    qed
  qed
qed

lemma keeps_consolidate: "keeps_pools w (consolidateFinalNumbers env w b k)"
  by (simp add: keeps_defs consolidateFinalNumbers_def request_eq Let_def
      split: bool.splits)

lemma keeps_collect_names: "keeps_pools w (collect_names env w b)"
  by (simp add: keeps_defs collect_names_def request_eq split: bool.splits option.splits)

lemma keeps_surplus_loop: "keeps_pools w (surplus_loop env b k used bets w)"
proof (induction k arbitrary: used bets w)
  case 0
  then show ?case by (simp add: keeps_defs)
next
  case (Suc k)
  have step: "keeps_pools w0 (surplus_loop env b k u s w1)"
    if "same_pools w0 w1" for w0 w1 u s
    by (rule keeps_trans [OF that Suc.IH])
  have fallback: "keeps_pools w1
      (andThen (getScores env w1 b False) (\<lambda>scoresData w.
       andThen (generateWeightedRandomNumbers env w (score_pairs scoresData) 6)
         (\<lambda>generated w. surplus_loop env b k u (s @ [generated]) w)))" for w1 u s
    by (intro keeps_andThen keeps_getScores keeps_generate step) simp
  define w1 where "w1 = w\<lparr>requests := Suc (requests w)\<rparr>"
  have sp: "same_pools w w1" by (simp add: w1_def)
  show ?case
  proof (cases "fails env SelectTopScores (requests w)")
    case True
    then show ?thesis
      using step [OF sp] by (simp add: request_eq Let_def w1_def)
  next
    case False
    then show ?thesis
      using step [OF sp] keeps_trans [OF sp fallback]
      by (simp add: request_eq Let_def w1_def)
  qed
qed

lemma keeps_select_open_bolao: "keeps_pools w (select_open_bolao env w b)"
  by (simp add: keeps_defs select_open_bolao_def request_eq split: option.splits)

lemma keeps_getBolaoFinancials: "keeps_pools w (getBolaoFinancials env w b)"
  by (simp add: keeps_defs getBolaoFinancials_def request_eq Let_def
      split: option.splits bool.splits)

lemma keeps_closure_tail:
  "keeps_pools w
     (andThen (consolidateFinalNumbers env w b level)
        (\<lambda>mainBetNumbers w.
      andThen (collect_names env w b) (\<lambda>numberToUsers w.
      andThen (surplus_loop env b k mainBetNumbers [] w)
        (\<lambda>surplusBets w.
           (let closureData =
                  assemble_closure b row (clock env (clock_reads w))
                    admin fin level betCost n
                    remainingFunds participantsData numberToUsers mainBetNumbers
                    surplusBets;
                hash = generateClosureHash env (closure_json closureData)
            in (Inr (closureData, hash),
                w\<lparr>clock_reads := Suc (clock_reads w)\<rparr>))))))"
  by (intro keeps_andThen keeps_consolidate keeps_collect_names keeps_surplus_loop)
    (simp add: keeps_defs Let_def)

lemma keeps_close_steps:
  "keeps_pools w (close_steps env w b admin row fin level betCost n remainingFunds)"
proof -
  have mid: "keeps_pools w2
     (case all_present (map participant_data_of participants) of
        None \<Rightarrow> (Inl TypeError, w2)
      | Some participantsData \<Rightarrow>
          andThen (consolidateFinalNumbers env w2 b level)
            (\<lambda>mainBetNumbers w.
          andThen (collect_names env w b) (\<lambda>numberToUsers w.
          andThen (surplus_loop env b (nat n) mainBetNumbers [] w)
            (\<lambda>surplusBets w.
               (let closureData =
                      assemble_closure b row (clock env (clock_reads w))
                        admin fin level betCost n
                        remainingFunds participantsData numberToUsers mainBetNumbers
                        surplusBets;
                    hash = generateClosureHash env (closure_json closureData)
                in (Inr (closureData, hash),
                    w\<lparr>clock_reads := Suc (clock_reads w)\<rparr>))))))" for w2 participants
  proof (cases "all_present (map participant_data_of participants)")
    case None
    then show ?thesis by (simp add: keeps_defs)
  next
    case (Some pd)
    show ?thesis unfolding Some by (simp only: option.case keeps_closure_tail)
  qed
  have all: "keeps_pools w1
      (andThen (getScores env w1 b False) (\<lambda>scores w.
          andThen (autogenerate env scores selected w)
            (\<lambda>participants w.
               (case all_present (map participant_data_of participants) of
                  None \<Rightarrow> (Inl TypeError, w)
                | Some participantsData \<Rightarrow>
                    andThen (consolidateFinalNumbers env w b level)
                      (\<lambda>mainBetNumbers w.
                    andThen (collect_names env w b) (\<lambda>numberToUsers w.
                    andThen (surplus_loop env b (nat n) mainBetNumbers [] w)
                      (\<lambda>surplusBets w.
                         (let closureData =
                                assemble_closure b row (clock env (clock_reads w))
                                  admin fin level betCost n
                                  remainingFunds participantsData numberToUsers mainBetNumbers
                                  surplusBets;
                              hash = generateClosureHash env (closure_json closureData)
                          in (Inr (closureData, hash),
                              w\<lparr>clock_reads := Suc (clock_reads w)\<rparr>)))))))))"
    for w1 selected
    by (intro keeps_andThen keeps_getScores keeps_autogenerate mid)
  show ?thesis
  proof (cases "fails env SelectParticipants (requests w)")
    case True
    then show ?thesis by (simp add: close_steps_def request_eq keeps_defs)
  next
    case False
    then show ?thesis
      using keeps_trans [OF same_pools_requests
          all [of "w\<lparr>requests := Suc (requests w)\<rparr>" "select_participants (db w) b"]]
      by (simp add: close_steps_def request_eq Let_def)
  qed
qed

lemma keeps_prepare_closure: "keeps_pools w (prepare_closure env w b admin)"
proof -
  have lv: "keeps_pools w2
       (case fin_betInfo fin of
          NoLevel err _ _ \<Rightarrow> (Inl (InsufficientFunds err), w2)
        | Level level betCost _ surplusBetCount remainingFunds _ _ _ _ \<Rightarrow>
            if level = 0 then (Inl (InsufficientFunds ''Insufficient funds''), w2)
            else close_steps env w2 b admin row fin level betCost
                   surplusBetCount remainingFunds)" for w2 fin row
    by (cases "fin_betInfo fin") (simp_all add: keeps_close_steps, simp_all add: keeps_defs)
  show ?thesis
    unfolding prepare_closure_def
    by (intro keeps_andThen keeps_select_open_bolao keeps_getBolaoFinancials lv)
qed


lemma closeBolao_prepare_fails:
  assumes "prepare_closure env w bolaoId adminUserId = (Inl e1, w1)"
  shows "closeBolao env w bolaoId adminUserId = (Inl e1, w1)"
  by (simp add: closeBolao_def assms andThen_def)

lemma closeBolao_prepared:
  assumes "prepare_closure env w bolaoId adminUserId = (Inr (closureData, hash), w1)"
  shows "closeBolao env w bolaoId adminUserId =
          andThen (update_bolao env bolaoId hash closureData w1) (\<lambda>_ w.
          andThen (insert_final_bets env bolaoId (cd_finalBets closureData) w) (\<lambda>_ w.
            (Inr \<lparr>cr_success = True, cr_hash = hash, cr_closureData = closureData,
                  cr_finalBets = cd_finalBets closureData\<rparr>, w)))"
  by (simp add: closeBolao_def assms andThen_def)

lemma close_update_id [simp]: "bolao_id (close_update i h c b) = bolao_id b"
  by (simp add: close_update_def)

lemma close_update_status: "bolao_id b = i \<Longrightarrow> status (close_update i h c b) = CLOSED"
  by (simp add: close_update_def)

lemma close_update_ids: "map bolao_id (map (close_update i h c) bs) = map bolao_id bs"
  by (induction bs) simp_all


lemma close_update_closed:
  assumes "b \<in> set (map (close_update i h c) bs)" "bolao_id b = i"
  shows "status b = CLOSED"
proof -
  from assms(1) obtain a where a: "b = close_update i h c a"
    unfolding set_map by (rule imageE)
  have "bolao_id a = i"
    using assms(2) unfolding a close_update_id .
  then show ?thesis
    unfolding a by (rule close_update_status)
qed


lemma update_bolao_eq:
  "update_bolao env bolaoId hash closureData w1 =
     (if fails env UpdateBolao (requests w1)
      then (Inl (StorageError UpdateBolao), w1\<lparr>requests := Suc (requests w1)\<rparr>)
      else (Inr (), w1\<lparr>requests := Suc (requests w1),
                       db := (db w1)\<lparr>bolao := map (close_update bolaoId hash closureData)
                                                (bolao (db w1))\<rparr>\<rparr>))"
  by (simp add: update_bolao_def request_eq close_update_def [abs_def])

lemma insert_final_bets_eq:
  "insert_final_bets env bolaoId finalBets w3 =
     (if fails env InsertFinalBets (requests w3)
      then (Inl (StorageError InsertFinalBets), w3\<lparr>requests := Suc (requests w3)\<rparr>)
      else (Inr (), w3\<lparr>requests := Suc (requests w3),
                       db := (db w3)\<lparr>final_bets := final_bets (db w3) @
                          map (\<lambda>bet. \<lparr>fb_bolao_id = bolaoId, bet_type = bt_type bet,
                                      fb_numbers = bt_numbers bet\<rparr>) finalBets\<rparr>\<rparr>))"
  by (simp add: insert_final_bets_def request_eq Let_def)

lemma closeBolao_outcome:
  assumes p: "prepare_closure env w bolaoId adminUserId = (Inr (closureData, hash), w1)"
  shows "closeBolao env w bolaoId adminUserId =
     (if fails env UpdateBolao (requests w1)
      then (Inl (StorageError UpdateBolao), w1\<lparr>requests := Suc (requests w1)\<rparr>)
      else if fails env InsertFinalBets (Suc (requests w1))
      then (Inl (StorageError InsertFinalBets),
            w1\<lparr>requests := Suc (Suc (requests w1)),
               db := (db w1)\<lparr>bolao := map (close_update bolaoId hash closureData)
                                        (bolao (db w1))\<rparr>\<rparr>)
      else (Inr \<lparr>cr_success = True, cr_hash = hash, cr_closureData = closureData,
                 cr_finalBets = cd_finalBets closureData\<rparr>,
            w1\<lparr>requests := Suc (Suc (requests w1)),
               db := (db w1)\<lparr>bolao := map (close_update bolaoId hash closureData)
                                        (bolao (db w1)),
                             final_bets := final_bets (db w1) @
                               map (\<lambda>bet. \<lparr>fb_bolao_id = bolaoId, bet_type = bt_type bet,
                                           fb_numbers = bt_numbers bet\<rparr>)
                                 (cd_finalBets closureData)\<rparr>\<rparr>))"
  unfolding closeBolao_prepared [OF p] update_bolao_eq insert_final_bets_eq
  by (simp add: andThen_def)


lemma select_open_bolao_Inr:
  assumes "select_open_bolao env w b = (Inr row, w1)"
  shows "row \<in> set (bolao (db w)) \<and> bolao_id row = b \<and> status row = OPEN"
proof -
  let ?rows = "filter (\<lambda>r. bolao_id r = b \<and> status r = OPEN) (bolao (db w))"
  have "single ?rows = Some row"
    using assms
    by (auto simp: select_open_bolao_def request_eq split: if_splits option.splits)
  then have "?rows = [row]"
    by (cases ?rows rule: single.cases) simp_all
  then have "row \<in> set ?rows" by simp
  then show ?thesis by simp
qed

lemma select_open_bolao_Inl:
  "select_open_bolao env w b = (Inl e, w1) \<Longrightarrow> e = NotFoundOrClosed"
  by (auto simp: select_open_bolao_def request_eq split: if_splits option.splits)

lemma closeBolao_passed_check:
  assumes "closeBolao env w bolaoId adminUserId = (Inl e, w')" "e \<noteq> NotFoundOrClosed"
  shows "\<exists>b\<in>set (bolao (db w)). bolao_id b = bolaoId \<and> status b = OPEN"
proof (cases "select_open_bolao env w bolaoId")
  case (Pair x w1)
  show ?thesis
  proof (cases x)
    case (Inl e0)
    have "prepare_closure env w bolaoId adminUserId = (Inl e0, w1)"
      by (simp add: prepare_closure_def Pair Inl andThen_def)
    from closeBolao_prepare_fails [OF this] assms(1) have "e = e0" by simp
    moreover have "e0 = NotFoundOrClosed"
      using Pair Inl by (auto dest: select_open_bolao_Inl)
    ultimately show ?thesis using assms(2) by simp
  next
    case (Inr row)
    then show ?thesis using select_open_bolao_Inr [of env w bolaoId row w1] Pair by blast
  qed
qed

text \<open>
  Claim C2, as the code has it.  When \<open>closeBolao\<close> fails with any error but that of
  the final-bets insert, the pools and the final bets are as they were before the call;
  unless the failure is that of the initial check, the pool is in the table and was open,
  so it is still open.  The update that sets the status to closed is not the last write:
  the insert of the final bets follows it, and the only failure that changes the pools
  is the failure of that insert, which leaves the pool closed and no final bet stored.
\<close>

theorem closeBolao_failure_status:
  assumes "closeBolao env w bolaoId adminUserId = (Inl e, w')"
  shows "(e \<noteq> NotFoundOrClosed \<longrightarrow>
            (\<exists>b\<in>set (bolao (db w)). bolao_id b = bolaoId \<and> status b = OPEN)) \<and>
         (e \<noteq> StorageError InsertFinalBets \<longrightarrow>
            bolao (db w') = bolao (db w) \<and> final_bets (db w') = final_bets (db w)) \<and>
         (bolao (db w') = bolao (db w) \<or>
          (e = StorageError InsertFinalBets \<and> final_bets (db w') = final_bets (db w) \<and>
           map bolao_id (bolao (db w')) = map bolao_id (bolao (db w)) \<and>
           (\<forall>b\<in>set (bolao (db w')). bolao_id b = bolaoId \<longrightarrow> status b = CLOSED)))"
proof -
  have main: "same_pools w w' \<or>
      (e = StorageError InsertFinalBets \<and> final_bets (db w') = final_bets (db w) \<and>
       map bolao_id (bolao (db w')) = map bolao_id (bolao (db w)) \<and>
       (\<forall>b\<in>set (bolao (db w')). bolao_id b = bolaoId \<longrightarrow> status b = CLOSED))"
  proof (cases "prepare_closure env w bolaoId adminUserId")
    case (Pair x w1)
    have k: "same_pools w w1"
      using keeps_prepare_closure [of w env bolaoId adminUserId]
      by (simp add: keeps_pools_def Pair)
    show ?thesis
    proof (cases x)
      case (Inl e1)
      from closeBolao_prepare_fails [OF Pair [unfolded Inl]] assms
      have "w' = w1" by simp
      then show ?thesis using k by simp
    next
      case (Inr r)
      obtain closureData hash where r: "r = (closureData, hash)" by fastforce
      note o = closeBolao_outcome [OF Pair [unfolded Inr r]]
      show ?thesis
      proof (cases "fails env UpdateBolao (requests w1)")
        case True
        then have "w' = w1\<lparr>requests := Suc (requests w1)\<rparr>"
          using assms unfolding o by simp
        then show ?thesis using k by (simp add: same_pools_def)
      next
        case False
        then have f: "fails env InsertFinalBets (Suc (requests w1))"
          using assms unfolding o by (auto split: if_splits)
        then have e: "e = StorageError InsertFinalBets"
          and w': "w' = w1\<lparr>requests := Suc (Suc (requests w1)),
               db := (db w1)\<lparr>bolao := map (close_update bolaoId hash closureData)
                                        (bolao (db w1))\<rparr>\<rparr>"
          using assms False unfolding o by simp_all
        have b: "bolao (db w') = map (close_update bolaoId hash closureData) (bolao (db w))"
          and fb: "final_bets (db w') = final_bets (db w)"
          using k unfolding w' by (simp_all add: same_pools_def)
        have "\<forall>b\<in>set (bolao (db w')). bolao_id b = bolaoId \<longrightarrow> status b = CLOSED"
          unfolding b using close_update_closed by blast
        then show ?thesis
          using e fb close_update_ids [of bolaoId hash closureData "bolao (db w)"]
          unfolding b by simp
      qed
    qed
  qed
  have "bolao (db w') = bolao (db w) \<and> final_bets (db w') = final_bets (db w)"
    if "e \<noteq> StorageError InsertFinalBets"
    using main that by (auto simp: same_pools_def)
  moreover have "bolao (db w') = bolao (db w) \<or>
          (e = StorageError InsertFinalBets \<and> final_bets (db w') = final_bets (db w) \<and>
           map bolao_id (bolao (db w')) = map bolao_id (bolao (db w)) \<and>
           (\<forall>b\<in>set (bolao (db w')). bolao_id b = bolaoId \<longrightarrow> status b = CLOSED))"
    using main by (auto simp: same_pools_def)
  ultimately show ?thesis
    using closeBolao_passed_check [OF assms] by blast
qed



lemma update_fails_run:
  "fst (closeBolao update_fails_env sample_world ''b1'' ''admin'') =
     Inl (StorageError UpdateBolao)"
  by code_simp

theorem closeBolao_failure_status_witness:
  "fst (closeBolao update_fails_env sample_world ''b1'' ''admin'') =
     Inl (StorageError UpdateBolao) \<and>
   (\<exists>b\<in>set (bolao (db sample_world)). bolao_id b = ''b1'' \<and> status b = OPEN) \<and>
   bolao (db (snd (closeBolao update_fails_env sample_world ''b1'' ''admin''))) =
     bolao (db sample_world) \<and>
   final_bets (db (snd (closeBolao update_fails_env sample_world ''b1'' ''admin''))) =
     final_bets (db sample_world)"
proof -
  have "closeBolao update_fails_env sample_world ''b1'' ''admin'' =
      (Inl (StorageError UpdateBolao),
       snd (closeBolao update_fails_env sample_world ''b1'' ''admin''))"
    using update_fails_run by (metis prod.collapse)
  from closeBolao_failure_status [OF this] show ?thesis
    using update_fails_run by simp
qed

lemma insert_fails_run:
  "(case closeBolao insert_fails_env sample_world ''b1'' ''admin'' of
      (Inl e, w') \<Rightarrow> e = StorageError InsertFinalBets \<and>
                      map status (bolao (db w')) = [CLOSED] \<and> final_bets (db w') = []
    | (Inr r, w') \<Rightarrow> False)"
  by code_simp

text \<open>
  The claim as stated fails on the sample world when the insert of the final bets
  fails: the pool was open, the error of the insert propagates, and the pool is closed
  with no final bet stored.
\<close>

theorem closeBolao_closed_after_failure_counterexample:
  "map status (bolao (db sample_world)) = [OPEN] \<and>
   fst (closeBolao insert_fails_env sample_world ''b1'' ''admin'') =
     Inl (StorageError InsertFinalBets) \<and>
   map status (bolao (db (snd (closeBolao insert_fails_env sample_world ''b1'' ''admin'')))) =
     [CLOSED] \<and>
   final_bets (db (snd (closeBolao insert_fails_env sample_world ''b1'' ''admin''))) = []"
proof -
  have "map status (bolao (db sample_world)) = [OPEN]"
    by (simp add: sample_world_def sample_db_def)
  then show ?thesis
    using insert_fails_run
    by (cases "closeBolao insert_fails_env sample_world ''b1'' ''admin''")
       (simp split: sum.splits)
qed

end
